theory Spec2Isabelle
  imports Main
begin

section \<open>Strings\<close>

text \<open>
  The program is TypeScript. Its strings are modelled as \<^typ>\<open>string\<close>, holding the UTF-8
  encoding of the text: an ASCII character is one \<^typ>\<open>char\<close>, any other code point is the
  two to four bytes of its encoding. The separators the program looks for (colon, slash)
  are ASCII, so splitting and replacing on bytes is splitting and replacing on characters.
\<close>

text \<open>\<^verbatim>\<open>String.prototype.split\<close> with a one-character separator: the text is cut at every
  occurrence of the separator; the result always has at least one segment, and the
  empty text gives the single empty segment.\<close>

fun js_split :: "char \<Rightarrow> string \<Rightarrow> string list" where
  "js_split sep [] = [[]]"
| "js_split sep (c # cs) =
     (if c = sep then [] # js_split sep cs
      else (case js_split sep cs of
              [] \<Rightarrow> [[c]]
            | p # ps \<Rightarrow> (c # p) # ps))"

text \<open>\<^verbatim>\<open>xs[i] ?? d\<close>: reading an array past its end gives \<^verbatim>\<open>undefined\<close>, which the
  nullish operator replaces by the default; an element that is there, empty or not, is kept.\<close>

definition at_or :: "'a list \<Rightarrow> nat \<Rightarrow> 'a \<Rightarrow> 'a" where
  "at_or xs i d = (if i < length xs then xs ! i else d)"

text \<open>\<^verbatim>\<open>Array.prototype.join\<close>.\<close>

fun js_join :: "string \<Rightarrow> string list \<Rightarrow> string" where
  "js_join sep [] = []"
| "js_join sep [x] = x"
| "js_join sep (x # y # ys) = x @ sep @ js_join sep (y # ys)"

text \<open>\<^verbatim>\<open>String.prototype.trim\<close> removes, at both ends, the code points of the ECMAScript
  classes WhiteSpace and LineTerminator. These are their UTF-8 encodings: U+0009 to
  U+000D, U+0020, U+00A0, U+1680, U+2000 to U+200A, U+2028, U+2029, U+202F, U+205F,
  U+3000 and U+FEFF.\<close>

definition whitespace :: "string list" where
  "whitespace =
     [[CHR 0x09], [CHR 0x0A], [CHR 0x0B], [CHR 0x0C], [CHR 0x0D], [CHR 0x20],
      [CHR 0xC2, CHR 0xA0],
      [CHR 0xE1, CHR 0x9A, CHR 0x80],
      [CHR 0xE2, CHR 0x80, CHR 0x80], [CHR 0xE2, CHR 0x80, CHR 0x81],
      [CHR 0xE2, CHR 0x80, CHR 0x82], [CHR 0xE2, CHR 0x80, CHR 0x83],
      [CHR 0xE2, CHR 0x80, CHR 0x84], [CHR 0xE2, CHR 0x80, CHR 0x85],
      [CHR 0xE2, CHR 0x80, CHR 0x86], [CHR 0xE2, CHR 0x80, CHR 0x87],
      [CHR 0xE2, CHR 0x80, CHR 0x88], [CHR 0xE2, CHR 0x80, CHR 0x89],
      [CHR 0xE2, CHR 0x80, CHR 0x8A],
      [CHR 0xE2, CHR 0x80, CHR 0xA8], [CHR 0xE2, CHR 0x80, CHR 0xA9],
      [CHR 0xE2, CHR 0x80, CHR 0xAF],
      [CHR 0xE2, CHR 0x81, CHR 0x9F],
      [CHR 0xE3, CHR 0x80, CHR 0x80],
      [CHR 0xEF, CHR 0xBB, CHR 0xBF]]"

definition ws_prefix :: "string \<Rightarrow> string option" where
  "ws_prefix s = List.find (\<lambda>w. take (length w) s = w) whitespace"

definition ws_suffix :: "string \<Rightarrow> string option" where
  "ws_suffix s =
     List.find (\<lambda>w. length w \<le> length s \<and> drop (length s - length w) s = w) whitespace"

function trimStart :: "string \<Rightarrow> string" where
  "trimStart s =
     (case ws_prefix s of
        None \<Rightarrow> s
      | Some w \<Rightarrow> trimStart (drop (length w) s))"
  by pat_completeness auto
termination
proof (relation "measure length")
  show "wf (measure length)" by simp
next
  fix s w
  assume "ws_prefix s = Some w"
  then have mem: "w \<in> set whitespace" and pre: "take (length w) s = w"
    by (auto simp: ws_prefix_def find_Some_iff)
  from mem have "w \<noteq> []" by (auto simp: whitespace_def)
  moreover from pre have "length (take (length w) s) = length w" by simp
  then have "length w \<le> length s" by simp
  ultimately have "length s - length w < length s" by (cases w) auto
  then show "(drop (length w) s, s) \<in> measure length" by simp
qed

function trimEnd :: "string \<Rightarrow> string" where
  "trimEnd s =
     (case ws_suffix s of
        None \<Rightarrow> s
      | Some w \<Rightarrow> trimEnd (take (length s - length w) s))"
  by pat_completeness auto
termination
proof (relation "measure length")
  show "wf (measure length)" by simp
next
  fix s w
  assume "ws_suffix s = Some w"
  then have mem: "w \<in> set whitespace" and le: "length w \<le> length s"
    by (auto simp: ws_suffix_def find_Some_iff)
  from mem have "w \<noteq> []" by (auto simp: whitespace_def)
  with le have "length s - length w < length s" by (cases w) auto
  then show "(take (length s - length w) s, s) \<in> measure length" by simp
qed

definition trim :: "string \<Rightarrow> string" where
  "trim s = trimEnd (trimStart s)"

section \<open>Targets and statuses\<close>

record TargetIdentity =
  task :: string
  project :: string

definition parseTarget :: "string \<Rightarrow> TargetIdentity" where
  "parseTarget target =
     (let parts = js_split CHR '':'' target;
          project = at_or parts 0 ''unknown'';
          task = at_or parts 1 ''unknown''
      in \<lparr>task = task, project = project\<rparr>)"

text \<open>\<^verbatim>\<open>project.replace(/\//g, "-")\<close>: every slash becomes a hyphen.\<close>

definition sanitizeProjectName :: "string \<Rightarrow> string" where
  "sanitizeProjectName name = map (\<lambda>c. if c = CHR ''/'' then CHR ''-'' else c) name"

text \<open>
  A status is the text found in the report. The type \<^verbatim>\<open>ActionStatus\<close> of the source is the
  closed union of the ten texts below; the report is parsed JSON and is not validated
  against it, so the functions are defined on every text.
\<close>

definition ActionStatus :: "string list" where
  "ActionStatus =
     [''running'', ''passed'', ''failed'', ''timed-out'', ''aborted'', ''invalid'',
      ''failed-and-abort'', ''skipped'', ''cached'', ''cached-from-remote'']"

text \<open>The glyphs, as UTF-8: U+2705, U+274C, U+23ED U+FE0F, U+1F4BE, U+1F3C3, U+2753.\<close>

definition check_mark :: string where
  "check_mark = [CHR 0xE2, CHR 0x9C, CHR 0x85]"

definition cross_mark :: string where
  "cross_mark = [CHR 0xE2, CHR 0x9D, CHR 0x8C]"

definition next_track :: string where
  "next_track = [CHR 0xE2, CHR 0x8F, CHR 0xAD, CHR 0xEF, CHR 0xB8, CHR 0x8F]"

definition floppy_disk :: string where
  "floppy_disk = [CHR 0xF0, CHR 0x9F, CHR 0x92, CHR 0xBE]"

definition runner :: string where
  "runner = [CHR 0xF0, CHR 0x9F, CHR 0x8F, CHR 0x83]"

definition question_mark :: string where
  "question_mark = [CHR 0xE2, CHR 0x9D, CHR 0x93]"

definition getStatusEmoji :: "string \<Rightarrow> string" where
  "getStatusEmoji status =
     (if status = ''passed'' then check_mark
      else if status = ''failed'' \<or> status = ''timed-out'' \<or> status = ''aborted''
              \<or> status = ''invalid'' \<or> status = ''failed-and-abort'' then cross_mark
      else if status = ''skipped'' then next_track
      else if status = ''cached'' \<or> status = ''cached-from-remote'' then floppy_disk
      else if status = ''running'' then runner
      else question_mark)"

definition bgGreen :: "string \<Rightarrow> string" where
  "bgGreen text = [CHR 0x1B] @ ''[42m'' @ text @ [CHR 0x1B] @ ''[49m''"

definition bgRed :: "string \<Rightarrow> string" where
  "bgRed text = [CHR 0x1B] @ ''[41m'' @ text @ [CHR 0x1B] @ ''[49m''"

definition bgBlue :: "string \<Rightarrow> string" where
  "bgBlue text = [CHR 0x1B] @ ''[44m'' @ text @ [CHR 0x1B] @ ''[49m''"

definition bgDarkGray :: "string \<Rightarrow> string" where
  "bgDarkGray text = [CHR 0x1B] @ ''[48;5;236m'' @ text @ [CHR 0x1B] @ ''[49m''"

definition bold :: "string \<Rightarrow> string" where
  "bold text = [CHR 0x1B] @ ''[1m'' @ text @ [CHR 0x1B] @ ''[22m''"

definition green :: "string \<Rightarrow> string" where
  "green text = [CHR 0x1B] @ ''[32m'' @ text @ [CHR 0x1B] @ ''[39m''"

definition red :: "string \<Rightarrow> string" where
  "red text = [CHR 0x1B] @ ''[31m'' @ text @ [CHR 0x1B] @ ''[39m''"

definition blue :: "string \<Rightarrow> string" where
  "blue text = [CHR 0x1B] @ ''[34m'' @ text @ [CHR 0x1B] @ ''[39m''"

definition statusBadges :: "(string \<times> string) list" where
  "statusBadges =
     [(''running'', bgGreen '' RUNNING ''),
      (''passed'', bgGreen '' PASS ''),
      (''failed'', bgRed '' FAIL ''),
      (''timed-out'', bgRed '' TIMED OUT ''),
      (''aborted'', bgRed '' ABORTED ''),
      (''invalid'', bgRed '' INVALID ''),
      (''failed-and-abort'', bgRed '' FAILED AND ABORT ''),
      (''skipped'', bgBlue '' SKIP ''),
      (''cached'', bgBlue '' CACHED ''),
      (''cached-from-remote'', bgBlue '' REMOTE CACHED '')]"

text \<open>
  \<^verbatim>\<open>statusBadges\<close> is an object literal with one property for each of the ten statuses,
  read by \<^verbatim>\<open>statusBadges[action.status]\<close>. Reading a property of a plain object gives its own
  property of that name; failing that, the member of that name it inherits from
  \<^verbatim>\<open>Object.prototype\<close>; failing that, \<^verbatim>\<open>undefined\<close>.
\<close>

datatype property = Own string | Inherited string | Undefined

text \<open>
  The members of \<^verbatim>\<open>Object.prototype\<close>, each with the text a template literal prints for it:
  eleven built-in functions, printed by Node as their native source text, and the
  accessor \<^verbatim>\<open>__proto__\<close>, which gives the prototype object itself.
\<close>

definition native_function :: "string \<Rightarrow> string" where
  "native_function name = ''function '' @ name @ ''() { [native code] }''"

definition object_prototype :: "(string \<times> string) list" where
  "object_prototype =
     [(''constructor'', native_function ''Object''),
      (''__defineGetter__'', native_function ''__defineGetter__''),
      (''__defineSetter__'', native_function ''__defineSetter__''),
      (''hasOwnProperty'', native_function ''hasOwnProperty''),
      (''__lookupGetter__'', native_function ''__lookupGetter__''),
      (''__lookupSetter__'', native_function ''__lookupSetter__''),
      (''isPrototypeOf'', native_function ''isPrototypeOf''),
      (''propertyIsEnumerable'', native_function ''propertyIsEnumerable''),
      (''toString'', native_function ''toString''),
      (''valueOf'', native_function ''valueOf''),
      (''__proto__'', ''[object Object]''),
      (''toLocaleString'', native_function ''toLocaleString'')]"

definition statusBadges_at :: "string \<Rightarrow> property" where
  "statusBadges_at key =
     (case map_of statusBadges key of
        Some label \<Rightarrow> Own label
      | None \<Rightarrow>
          (case map_of object_prototype key of
             Some printed \<Rightarrow> Inherited printed
           | None \<Rightarrow> Undefined))"

text \<open>A value inside a template literal: \<^verbatim>\<open>undefined\<close> is printed as that word.\<close>

definition interpolate :: "property \<Rightarrow> string" where
  "interpolate v =
     (case v of Own label \<Rightarrow> label | Inherited printed \<Rightarrow> printed | Undefined \<Rightarrow> ''undefined'')"

text \<open>The two markers of \<^verbatim>\<open>stdBadges\<close>; U+3000 is the wide space, U+23FA the record dot.\<close>

definition wide_space :: string where
  "wide_space = [CHR 0xE3, CHR 0x80, CHR 0x80]"

definition record_dot :: string where
  "record_dot = [CHR 0xE2, CHR 0x8F, CHR 0xBA]"

definition stdBadges_out :: string where
  "stdBadges_out = bgDarkGray (wide_space @ green record_dot @ '' STDOUT'' @ wide_space)"

definition stdBadges_err :: string where
  "stdBadges_err = bgDarkGray (wide_space @ red record_dot @ '' STDERR'' @ wide_space)"

section \<open>Paths\<close>

text \<open>
  \<^verbatim>\<open>path.join\<close> of Node, POSIX flavour: the non-empty arguments are joined with a slash
  and the result is normalised. Normalising drops empty and \<^verbatim>\<open>.\<close> segments, lets \<^verbatim>\<open>..\<close>
  cancel the segment before it (and keeps it, in a relative path, when there is none),
  and keeps a leading and a trailing slash.
\<close>

fun normalizeString :: "bool \<Rightarrow> string list \<Rightarrow> string list \<Rightarrow> string list" where
  "normalizeString allowAboveRoot res [] = rev res"
| "normalizeString allowAboveRoot res (seg # segs) =
     (if seg = [] \<or> seg = ''.'' then normalizeString allowAboveRoot res segs
      else if seg = ''..'' then
        (case res of
           [] \<Rightarrow> normalizeString allowAboveRoot (if allowAboveRoot then [seg] else []) segs
         | lastSeg # below \<Rightarrow>
             if lastSeg \<noteq> ''..'' then normalizeString allowAboveRoot below segs
             else normalizeString allowAboveRoot
                    (if allowAboveRoot then seg # res else res) segs)
      else normalizeString allowAboveRoot (seg # res) segs)"

definition normalize :: "string \<Rightarrow> string" where
  "normalize p =
     (if p = [] then ''.''
      else
        let isAbsolute = (hd p = CHR ''/'');
            trailingSeparator = (last p = CHR ''/'');
            q = js_join ''/'' (normalizeString (\<not> isAbsolute) [] (js_split CHR ''/'' p))
        in if q = [] then (if isAbsolute then ''/'' else if trailingSeparator then ''./'' else ''.'')
           else (if isAbsolute then ''/'' else []) @ q @ (if trailingSeparator then ''/'' else []))"

definition path_join :: "string list \<Rightarrow> string" where
  "path_join args =
     (let given = filter (\<lambda>arg. arg \<noteq> []) args
      in if given = [] then ''.'' else normalize (js_join ''/'' given))"

section \<open>The report and the disk\<close>

record ActionNode =
  action :: string
  params_target :: string

record Operation =
  meta_type :: string
  meta_command :: "string option"

record Action =
  node :: ActionNode
  action_status :: string
  operations :: "Operation list"

record RunReport =
  actions :: "Action list"

text \<open>
  What the disk holds at a path: nothing (\<^verbatim>\<open>stat\<close> rejects), something whose text can be
  read, or something \<^verbatim>\<open>stat\<close> accepts and \<^verbatim>\<open>readFile\<close> rejects (a directory, a file
  without read permission).
\<close>

datatype fs_entry = Missing | Readable string | Unreadable

type_synonym fs = "string \<Rightarrow> fs_entry"

datatype error = ReadError string | ParseError string | SummaryError string

record SummaryTableCell =
  data :: string
  header :: bool

text \<open>The calls made on the summary buffer of the host platform, in the order made.\<close>

datatype summary_call =
    AddHeading string nat
  | AddRaw string
  | AddTable "SummaryTableCell list list"
  | AddBreak
  | AddCodeBlock "string option" string

text \<open>
  Everything the program does to the outside, in the order done: the paths it asks the
  disk about and reads, the lines and groups it sends to the console, the publication
  of the summary, and the error it prints at top level.
\<close>

datatype event =
    Stat string
  | ReadFile string
  | Debug string
  | Warning string
  | StartGroup string
  | ConsoleLog string
  | EndGroup
  | SummaryWrite "summary_call list"
  | ConsoleError error

definition fileExists :: "fs \<Rightarrow> string \<Rightarrow> bool \<times> event list" where
  "fileExists disk path = (disk path \<noteq> Missing, [Stat path])"

definition readFile :: "fs \<Rightarrow> string \<Rightarrow> (error + string) \<times> event list" where
  "readFile disk path =
     (case disk path of
        Readable content \<Rightarrow> (Inr content, [ReadFile path])
      | Missing \<Rightarrow> (Inl (ReadError path), [ReadFile path])
      | Unreadable \<Rightarrow> (Inl (ReadError path), [ReadFile path]))"

text \<open>
  \<^verbatim>\<open>parseJson\<close> comes from the package \<^verbatim>\<open>@moonrepo/dev\<close>: it reads the file at the path and
  parses its text as JSON, raising when either fails. The JSON grammar is not modelled:
  \<open>decode\<close> stands for it, giving the report a text denotes, if any.
\<close>

definition parseJson ::
  "fs \<Rightarrow> (string \<Rightarrow> RunReport option) \<Rightarrow> string \<Rightarrow> (error + RunReport) \<times> event list" where
  "parseJson disk decode path =
     (case readFile disk path of
        (Inl e, evs) \<Rightarrow> (Inl e, evs)
      | (Inr content, evs) \<Rightarrow>
          (case decode content of
             None \<Rightarrow> (Inl (ParseError path), evs)
           | Some report \<Rightarrow> (Inr report, evs)))"

section \<open>Locating the report\<close>

text \<open>The two paths \<^verbatim>\<open>loadReport\<close> builds for a candidate file name.\<close>

definition localPath :: "string \<Rightarrow> string" where
  "localPath fileName = path_join [''.moon/cache'', fileName]"

definition reportPath :: "string \<Rightarrow> string \<Rightarrow> string" where
  "reportPath workspaceRoot fileName = path_join [workspaceRoot, localPath fileName]"

text \<open>The loop of \<^verbatim>\<open>loadReport\<close> over the candidate file names.\<close>

fun loadReport_loop ::
  "fs \<Rightarrow> (string \<Rightarrow> RunReport option) \<Rightarrow> string \<Rightarrow> string list
     \<Rightarrow> (error + RunReport option) \<times> event list" where
  "loadReport_loop disk decode workspaceRoot [] = (Inr None, [])"
| "loadReport_loop disk decode workspaceRoot (fileName # rest) =
     (let finding = [Debug (''Finding run report at '' @ localPath fileName)]
      in case fileExists disk (reportPath workspaceRoot fileName) of
           (True, evs) \<Rightarrow>
             (case parseJson disk decode (reportPath workspaceRoot fileName) of
                (Inl e, evs') \<Rightarrow> (Inl e, finding @ evs @ [Debug ''Found!''] @ evs')
              | (Inr report, evs') \<Rightarrow>
                  (Inr (Some report), finding @ evs @ [Debug ''Found!''] @ evs'))
         | (False, evs) \<Rightarrow>
             (case loadReport_loop disk decode workspaceRoot rest of
                (found, evs') \<Rightarrow> (found, finding @ evs @ evs')))"

definition loadReport ::
  "fs \<Rightarrow> (string \<Rightarrow> RunReport option) \<Rightarrow> string
     \<Rightarrow> (error + RunReport option) \<times> event list" where
  "loadReport disk decode workspaceRoot =
     loadReport_loop disk decode workspaceRoot [''ciReport.json'', ''runReport.json'']"

section \<open>Reading the logs of a task\<close>

fun commandOf_loop :: "Operation list \<Rightarrow> string option" where
  "commandOf_loop [] = None"
| "commandOf_loop (operation # rest) =
     (if meta_type operation = ''task-execution'' then meta_command operation
      else commandOf_loop rest)"

definition commandOf :: "Action \<Rightarrow> string option" where
  "commandOf a = commandOf_loop (operations a)"

text \<open>\<^verbatim>\<open>(await fileExists(p)) ? await readFile(p, { encoding: "utf8" }) : ""\<close>.\<close>

definition read_if_exists :: "fs \<Rightarrow> string \<Rightarrow> (error + string) \<times> event list" where
  "read_if_exists disk path =
     (case fileExists disk path of
        (True, evs) \<Rightarrow> (case readFile disk path of (r, evs') \<Rightarrow> (r, evs @ evs'))
      | (False, evs) \<Rightarrow> (Inr [], evs))"

definition statusDir :: "string \<Rightarrow> TargetIdentity \<Rightarrow> string" where
  "statusDir workspaceRoot ti =
     workspaceRoot @ ''/.moon/cache/states/'' @ sanitizeProjectName (project ti)
       @ ''/'' @ task ti"

definition stdoutPath :: "string \<Rightarrow> TargetIdentity \<Rightarrow> string" where
  "stdoutPath workspaceRoot ti = statusDir workspaceRoot ti @ ''/stdout.log''"

definition stderrPath :: "string \<Rightarrow> TargetIdentity \<Rightarrow> string" where
  "stderrPath workspaceRoot ti = statusDir workspaceRoot ti @ ''/stderr.log''"

definition readStatus ::
  "fs \<Rightarrow> string \<Rightarrow> TargetIdentity \<Rightarrow> (error + string \<times> string) \<times> event list" where
  "readStatus disk workspaceRoot ti =
     (case read_if_exists disk (stdoutPath workspaceRoot ti) of
        (Inl e, evs) \<Rightarrow> (Inl e, evs)
      | (Inr out, evs) \<Rightarrow>
          (case read_if_exists disk (stderrPath workspaceRoot ti) of
             (Inl e, evs') \<Rightarrow> (Inl e, evs @ evs')
           | (Inr err, evs') \<Rightarrow> (Inr (out, err), evs @ evs')))"

section \<open>The main routine\<close>

record TaskResult =
  target :: string
  status :: string
  command :: "string option"
  hasStdout :: bool
  hasStderr :: bool
  stdout :: "string option"
  stderr :: "string option"

text \<open>The console group of one task, lines 88 to 104 of the source.\<close>

definition console_group ::
  "string \<Rightarrow> string \<Rightarrow> string option \<Rightarrow> string \<Rightarrow> string \<Rightarrow> event list" where
  "console_group st tgt cmd out err =
     [StartGroup (interpolate (statusBadges_at st) @ '' '' @ bold tgt)]
     @ (case cmd of Some c \<Rightarrow> [ConsoleLog (blue (''$ '' @ c))] | None \<Rightarrow> [])
     @ (if trim out \<noteq> [] then [ConsoleLog stdBadges_out, ConsoleLog out] else [])
     @ (if trim err \<noteq> [] then [ConsoleLog stdBadges_err, ConsoleLog err] else [])
     @ [EndGroup]"

text \<open>
  The loop of \<^verbatim>\<open>main\<close> over the actions of the report. It carries the task results
  collected so far and gives them back with the events of the remaining actions; a
  read that raises ends the loop with the error.
\<close>

fun main_loop ::
  "fs \<Rightarrow> string \<Rightarrow> Action list \<Rightarrow> TaskResult list
     \<Rightarrow> (error + TaskResult list) \<times> event list" where
  "main_loop disk root [] taskResults = (Inr taskResults, [])"
| "main_loop disk root (a # rest) taskResults =
     (if action (node a) \<noteq> ''run-task'' then main_loop disk root rest taskResults
      else
        let ti = parseTarget (params_target (node a));
            tgt = project ti @ '':'' @ task ti;
            cmd = commandOf a
        in case readStatus disk root ti of
             (Inl e, evs) \<Rightarrow> (Inl e, evs)
           | (Inr (out, err), evs) \<Rightarrow>
               (let result =
                      \<lparr>target = tgt,
                       status = action_status a,
                       command = cmd,
                       hasStdout = (trim out \<noteq> []),
                       hasStderr = (trim err \<noteq> []),
                       stdout = (if trim out \<noteq> [] then Some out else None),
                       stderr = (if trim err \<noteq> [] then Some err else None)\<rparr>
                in case main_loop disk root rest (taskResults @ [result]) of
                     (r, evs') \<Rightarrow>
                       (r, evs @ console_group (action_status a) tgt cmd out err @ evs')))"

text \<open>The glyphs of the Outputs column, U+1F4E4 and U+1F4E5.\<close>

definition outbox_tray :: string where
  "outbox_tray = [CHR 0xF0, CHR 0x9F, CHR 0x93, CHR 0xA4]"

definition inbox_tray :: string where
  "inbox_tray = [CHR 0xF0, CHR 0x9F, CHR 0x93, CHR 0xA5]"

text \<open>\<^verbatim>\<open>x || "-"\<close>: the dash replaces \<^verbatim>\<open>undefined\<close> and the empty text.\<close>

definition or_dash :: "string option \<Rightarrow> string" where
  "or_dash v = (case v of None \<Rightarrow> ''-'' | Some s \<Rightarrow> if s = [] then ''-'' else s)"

definition tableRow :: "TaskResult \<Rightarrow> SummaryTableCell list" where
  "tableRow r =
     (let statusEmoji = getStatusEmoji (status r);
          outputs = (if hasStdout r then [outbox_tray @ '' stdout''] else [])
                    @ (if hasStderr r then [inbox_tray @ '' stderr''] else [])
      in [\<lparr>data = target r, header = False\<rparr>,
          \<lparr>data = statusEmoji @ '' '' @ status r, header = False\<rparr>,
          \<lparr>data = or_dash (command r), header = False\<rparr>,
          \<lparr>data = or_dash (Some (js_join '', '' outputs)), header = False\<rparr>])"

definition tableHeader :: "SummaryTableCell list" where
  "tableHeader =
     [\<lparr>data = ''Task'', header = True\<rparr>,
      \<lparr>data = ''Status'', header = True\<rparr>,
      \<lparr>data = ''Command'', header = True\<rparr>,
      \<lparr>data = ''Outputs'', header = True\<rparr>]"

text \<open>The detail section of one task, lines 138 to 154 of the source.\<close>

definition detail_section :: "TaskResult \<Rightarrow> summary_call list" where
  "detail_section r =
     [AddHeading (''Task: '' @ target r) 3]
     @ (if command r \<noteq> None \<and> command r \<noteq> Some [] then [AddCodeBlock (command r) ''bash'']
        else [])
     @ (if hasStdout r then [AddHeading ''STDOUT'' 4, AddCodeBlock (stdout r) ''text''] else [])
     @ (if hasStderr r then [AddHeading ''STDERR'' 4, AddCodeBlock (stderr r) ''text''] else [])
     @ [AddBreak]"

text \<open>
  \<^verbatim>\<open>summary.write()\<close> belongs to the host platform's package \<^verbatim>\<open>@actions/core\<close>: it appends the
  buffer to the file named by the variable \<^verbatim>\<open>GITHUB_STEP_SUMMARY\<close>, and rejects when the
  variable is unset or the file cannot be written. The parameter \<open>write\<close> stands for it:
  given the buffer, it gives the error the call rejects with, if any.

  \<^verbatim>\<open>main\<close>, given the environment variables, the write operation, the disk, the JSON
  decoder and the working directory of the process. It gives the error that escapes
  it, if any, and its events; the event \<^const>\<open>SummaryWrite\<close> is the call of the write operation.
\<close>

definition main ::
  "(string \<rightharpoonup> string) \<Rightarrow> (summary_call list \<Rightarrow> error option) \<Rightarrow> fs
     \<Rightarrow> (string \<Rightarrow> RunReport option) \<Rightarrow> string \<Rightarrow> error option \<times> event list" where
  "main env write disk decode cwd =
     (let root = cwd
      in case loadReport disk decode root of
           (Inl e, evs) \<Rightarrow> (Some e, evs)
         | (Inr None, evs) \<Rightarrow>
             (None, evs @ [Warning
                ''Run report does not exist, has `moon ci` or `moon run` ran?''])
         | (Inr (Some report), evs) \<Rightarrow>
             (let isGitHubActions = (env ''GITHUB_ACTIONS'' = Some ''true'');
                  summary =
                    (if isGitHubActions
                     then Some [AddHeading ''Moon CI Retrospect Results'' 1,
                                AddRaw (''This report shows the results of Moon CI task executions.''
                                        @ [CHR 0x0A])]
                     else None)
              in case main_loop disk root (actions report) [] of
                   (Inl e, evs') \<Rightarrow> (Some e, evs @ evs')
                 | (Inr taskResults, evs') \<Rightarrow>
                     (case summary of
                        None \<Rightarrow> (None, evs @ evs')
                      | Some buffer \<Rightarrow>
                          if isGitHubActions \<and> taskResults \<noteq> [] then
                            (let doc = buffer
                                       @ [AddTable (tableHeader # map tableRow taskResults),
                                          AddBreak]
                                       @ concat (map detail_section taskResults)
                             in (write doc, evs @ evs' @ [SummaryWrite doc]))
                          else (None, evs @ evs'))))"

text \<open>
  The module body: \<^verbatim>\<open>main\<close> is awaited inside \<^verbatim>\<open>try\<close>; the handler prints the error and
  calls \<^verbatim>\<open>process.exit(0)\<close>. When \<^verbatim>\<open>main\<close> returns, the module ends and so does the process,
  with the code Node gives a process that sets none, which is 0.
\<close>

datatype ending = Returned | Exit nat

definition exit_code :: "ending \<Rightarrow> nat" where
  "exit_code e = (case e of Returned \<Rightarrow> 0 | Exit n \<Rightarrow> n)"

definition top_level ::
  "(string \<rightharpoonup> string) \<Rightarrow> (summary_call list \<Rightarrow> error option) \<Rightarrow> fs
     \<Rightarrow> (string \<Rightarrow> RunReport option) \<Rightarrow> string \<Rightarrow> ending \<times> event list" where
  "top_level env write disk decode cwd =
     (case main env write disk decode cwd of
        (None, evs) \<Rightarrow> (Returned, evs)
      | (Some e, evs) \<Rightarrow> (Exit 0, evs @ [ConsoleError e]))"

section \<open>Reading a trace\<close>

text \<open>The titles of the console groups opened, and the summaries published, in order.\<close>

fun group_titles :: "event list \<Rightarrow> string list" where
  "group_titles [] = []"
| "group_titles (StartGroup title # evs) = title # group_titles evs"
| "group_titles (ev # evs) = group_titles evs"

fun published :: "event list \<Rightarrow> summary_call list list" where
  "published [] = []"
| "published (SummaryWrite doc # evs) = doc # published evs"
| "published (ev # evs) = published evs"

text \<open>The rows of the tables of a summary, and its headings of a given level, in order.\<close>

fun table_rows :: "summary_call list \<Rightarrow> SummaryTableCell list list" where
  "table_rows [] = []"
| "table_rows (AddTable rows # calls) = rows @ table_rows calls"
| "table_rows (call # calls) = table_rows calls"

fun headings :: "nat \<Rightarrow> summary_call list \<Rightarrow> string list" where
  "headings level [] = []"
| "headings level (AddHeading text n # calls) =
     (if n = level then text # headings level calls else headings level calls)"
| "headings level (call # calls) = headings level calls"

text \<open>The actions the loop of \<^verbatim>\<open>main\<close> does not skip.\<close>

definition run_tasks :: "Action list \<Rightarrow> Action list" where
  "run_tasks as = filter (\<lambda>a. action (node a) = ''run-task'') as"

section \<open>Sample inputs\<close>

text \<open>A workspace at \<^verbatim>\<open>/work\<close> holding both reports and the standard output of one task.\<close>

definition sample_target :: TargetIdentity where
  "sample_target = \<lparr>task = ''test'', project = ''libs/ui''\<rparr>"

definition sample_disk :: fs where
  "sample_disk p =
     (if p = ''/work/.moon/cache/ciReport.json'' then Readable ''ci''
      else if p = ''/work/.moon/cache/runReport.json'' then Readable ''run''
      else if p = ''/work/.moon/cache/states/libs-ui/test/stdout.log''
        then Readable (''ok'' @ [CHR 0x0A])
      else Missing)"

text \<open>A report with two task executions around a step of another kind.\<close>

definition sample_report :: RunReport where
  "sample_report =
     \<lparr>actions =
        [\<lparr>node = \<lparr>action = ''run-task'', params_target = ''libs/ui:test''\<rparr>,
          action_status = ''passed'',
          operations = [\<lparr>meta_type = ''task-execution'', meta_command = Some ''npm test''\<rparr>]\<rparr>,
         \<lparr>node = \<lparr>action = ''sync-workspace'', params_target = []\<rparr>,
          action_status = ''passed'',
          operations = []\<rparr>,
         \<lparr>node = \<lparr>action = ''run-task'', params_target = ''proj''\<rparr>,
          action_status = ''paused'',
          operations = []\<rparr>]\<rparr>"

definition empty_report :: RunReport where
  "empty_report = \<lparr>actions = []\<rparr>"

definition sample_decode :: "string \<Rightarrow> RunReport option" where
  "sample_decode content =
     (if content = ''ci'' then Some sample_report
      else if content = ''run'' then Some empty_report
      else None)"

text \<open>
  The same workspace where the first task also left an error log holding a space and a
  line feed, and the second task an output log holding a wide space and a tab.
\<close>

definition blank_disk :: fs where
  "blank_disk p =
     (if p = ''/work/.moon/cache/states/libs-ui/test/stderr.log''
        then Readable [CHR 0x20, CHR 0x0A]
      else if p = ''/work/.moon/cache/states/proj/unknown/stdout.log''
        then Readable [CHR 0xE3, CHR 0x80, CHR 0x80, CHR 0x09]
      else sample_disk p)"

text \<open>Other workspaces: only the second report; no report; a report that is not JSON.\<close>

definition run_only_disk :: fs where
  "run_only_disk p =
     (if p = ''/work/.moon/cache/runReport.json'' then Readable ''run'' else Missing)"

definition empty_disk :: fs where
  "empty_disk p = Missing"

definition malformed_disk :: fs where
  "malformed_disk p =
     (if p = ''/work/.moon/cache/ciReport.json'' then Readable ''{'' else Missing)"

text \<open>A write operation that accepts every summary, and one that rejects every summary.\<close>

definition accepting_write :: "summary_call list \<Rightarrow> error option" where
  "accepting_write doc = None"

definition rejecting_write :: "summary_call list \<Rightarrow> error option" where
  "rejecting_write doc =
     Some (SummaryError ''Unable to find environment variable for $GITHUB_STEP_SUMMARY'')"

definition github_env :: "string \<rightharpoonup> string" where
  "github_env = [''GITHUB_ACTIONS'' \<mapsto> ''true'']"

text \<open>The task results the loop builds for the report above in the workspace above.\<close>

definition sample_results :: "TaskResult list" where
  "sample_results =
     [\<lparr>target = ''libs/ui:test'', status = ''passed'', command = Some ''npm test'',
       hasStdout = True, hasStderr = False,
       stdout = Some (''ok'' @ [CHR 0x0A]), stderr = None\<rparr>,
      \<lparr>target = ''proj:unknown'', status = ''paused'', command = None,
       hasStdout = False, hasStderr = False, stdout = None, stderr = None\<rparr>]"

section \<open>Parsing a target\<close>

lemma js_split_eq:
  "js_split sep t =
     takeWhile (\<lambda>c. c \<noteq> sep) t
       # (if sep \<in> set t then js_split sep (tl (dropWhile (\<lambda>c. c \<noteq> sep) t)) else [])"
proof (induction t)
  case Nil
  show ?case by simp
next
  case (Cons c cs)
  show ?case
  proof (cases "c = sep")
    case True
    then show ?thesis by simp
  next
    case False
    then show ?thesis by (subst js_split.simps, subst Cons.IH) simp
  qed
qed

text \<open>
  Claim C1, as the code has it. The target is cut at every colon. The project is the
  first segment, the text before the first colon (the whole target when it has no
  colon); it is kept as it is, also when it is empty, and never replaced by
  \<open>unknown\<close>. The task is the second segment, the text between the first colon and the
  next one (or the end); it is \<open>unknown\<close> exactly when the target has no colon. So
  \<open>appA:build\<close> gives project \<open>appA\<close> and task \<open>build\<close>, \<open>onlyproject\<close> gives project
  \<open>onlyproject\<close> and task \<open>unknown\<close>, and the empty target gives the empty project and
  task \<open>unknown\<close>.
\<close>

theorem parseTarget_segments:
  "parseTarget t =
     \<lparr>task = (if CHR '':'' \<in> set t
              then takeWhile (\<lambda>c. c \<noteq> CHR '':'') (tl (dropWhile (\<lambda>c. c \<noteq> CHR '':'') t))
              else ''unknown''),
      project = takeWhile (\<lambda>c. c \<noteq> CHR '':'') t\<rparr>
   \<and> parseTarget ''appA:build'' = \<lparr>task = ''build'', project = ''appA''\<rparr>
   \<and> parseTarget ''onlyproject'' = \<lparr>task = ''unknown'', project = ''onlyproject''\<rparr>
   \<and> parseTarget [] = \<lparr>task = ''unknown'', project = []\<rparr>"
proof -
  let ?rest = "tl (dropWhile (\<lambda>c. c \<noteq> CHR '':'') t)"
  have parts: "js_split CHR '':'' t =
      takeWhile (\<lambda>c. c \<noteq> CHR '':'') t
        # (if CHR '':'' \<in> set t
           then takeWhile (\<lambda>c. c \<noteq> CHR '':'') ?rest
                  # (if CHR '':'' \<in> set ?rest
                     then js_split CHR '':'' (tl (dropWhile (\<lambda>c. c \<noteq> CHR '':'') ?rest))
                     else [])
           else [])"
    by (subst js_split_eq, subst js_split_eq) simp
  have general: "parseTarget t =
     \<lparr>task = (if CHR '':'' \<in> set t
              then takeWhile (\<lambda>c. c \<noteq> CHR '':'') ?rest
              else ''unknown''),
      project = takeWhile (\<lambda>c. c \<noteq> CHR '':'') t\<rparr>"
    unfolding parseTarget_def Let_def at_or_def by (subst (1 2 3 4) parts) simp
  have e1: "parseTarget ''appA:build'' = \<lparr>task = ''build'', project = ''appA''\<rparr>"
    by (simp add: parseTarget_def at_or_def)
  have e2: "parseTarget ''onlyproject'' = \<lparr>task = ''unknown'', project = ''onlyproject''\<rparr>"
    by (simp add: parseTarget_def at_or_def)
  have e3: "parseTarget [] = \<lparr>task = ''unknown'', project = []\<rparr>"
    by (simp add: parseTarget_def at_or_def)
  from general e1 e2 e3 show ?thesis by blast
qed

text \<open>
  Claim C1 as written fails on the empty target: splitting the empty text gives one
  empty segment, which is there, so the project is the empty text and not \<open>unknown\<close>.
\<close>

theorem parseTarget_empty_counterexample:
  "parseTarget [] \<noteq> \<lparr>task = ''unknown'', project = ''unknown''\<rparr>"
  by (simp add: parseTarget_def at_or_def)

section \<open>Classifying a status\<close>

text \<open>
  Claim C9: the summary glyph of each status. \<open>passed\<close> gives U+2705; \<open>failed\<close>,
  \<open>timed-out\<close>, \<open>aborted\<close>, \<open>invalid\<close> and \<open>failed-and-abort\<close> give U+274C; \<open>skipped\<close> gives
  U+23ED U+FE0F; \<open>cached\<close> and \<open>cached-from-remote\<close> give U+1F4BE; \<open>running\<close> gives U+1F3C3;
  every text that is none of the ten statuses gives U+2753.
\<close>

theorem getStatusEmoji_table:
  "getStatusEmoji ''passed'' = [CHR 0xE2, CHR 0x9C, CHR 0x85]
   \<and> getStatusEmoji ''failed'' = [CHR 0xE2, CHR 0x9D, CHR 0x8C]
   \<and> getStatusEmoji ''timed-out'' = [CHR 0xE2, CHR 0x9D, CHR 0x8C]
   \<and> getStatusEmoji ''aborted'' = [CHR 0xE2, CHR 0x9D, CHR 0x8C]
   \<and> getStatusEmoji ''invalid'' = [CHR 0xE2, CHR 0x9D, CHR 0x8C]
   \<and> getStatusEmoji ''failed-and-abort'' = [CHR 0xE2, CHR 0x9D, CHR 0x8C]
   \<and> getStatusEmoji ''skipped'' = [CHR 0xE2, CHR 0x8F, CHR 0xAD, CHR 0xEF, CHR 0xB8, CHR 0x8F]
   \<and> getStatusEmoji ''cached'' = [CHR 0xF0, CHR 0x9F, CHR 0x92, CHR 0xBE]
   \<and> getStatusEmoji ''cached-from-remote'' = [CHR 0xF0, CHR 0x9F, CHR 0x92, CHR 0xBE]
   \<and> getStatusEmoji ''running'' = [CHR 0xF0, CHR 0x9F, CHR 0x8F, CHR 0x83]
   \<and> (s \<notin> set ActionStatus \<longrightarrow> getStatusEmoji s = [CHR 0xE2, CHR 0x9D, CHR 0x93])"
  by (simp add: getStatusEmoji_def ActionStatus_def check_mark_def cross_mark_def
        next_track_def floppy_disk_def runner_def question_mark_def)

theorem getStatusEmoji_table_witness:
  "''paused'' \<notin> set ActionStatus \<and> getStatusEmoji ''paused'' = [CHR 0xE2, CHR 0x9D, CHR 0x93]"
  using getStatusEmoji_table [of "''paused''"] by (simp add: ActionStatus_def)

lemma group_titles_append: "group_titles (xs @ ys) = group_titles xs @ group_titles ys"
  by (induction xs rule: group_titles.induct) simp_all

lemma published_append: "published (xs @ ys) = published xs @ published ys"
  by (induction xs rule: published.induct) simp_all

lemma statusBadges_keys: "map fst statusBadges = ActionStatus"
  by (simp add: statusBadges_def ActionStatus_def)

lemma statusBadges_at_Own:
  "(\<exists>label. statusBadges_at s = Own label) \<longleftrightarrow> s \<in> set ActionStatus"
proof -
  have "(map_of statusBadges s = None) \<longleftrightarrow> s \<notin> set (map fst statusBadges)"
    by (simp add: map_of_eq_None_iff)
  then have "(map_of statusBadges s = None) \<longleftrightarrow> s \<notin> set ActionStatus"
    by (simp only: statusBadges_keys)
  then show ?thesis
    by (auto simp: statusBadges_at_def split: option.splits)
qed

text \<open>
  Claim C2, on the code. For each of the ten statuses the badge table has a non-empty
  label, and the glyph function gives a non-empty glyph for every text, the glyph of
  the unknown class for a text that is none of the ten. The badge table has no
  fallback: for a text that is none of the ten the lookup gives no label of the
  table, and where it gives \<^verbatim>\<open>undefined\<close> the title of the console group starts with that
  word. The glyph function has the default arm the badge lookup lacks.
\<close>

theorem status_classifier_fallback:
  "(s \<in> set ActionStatus \<longrightarrow> (\<exists>label. statusBadges_at s = Own label \<and> label \<noteq> []))
   \<and> (s \<notin> set ActionStatus \<longrightarrow>
        (\<forall>label. statusBadges_at s \<noteq> Own label) \<and> getStatusEmoji s = question_mark)
   \<and> getStatusEmoji s \<noteq> []
   \<and> (statusBadges_at s = Undefined \<longrightarrow>
        group_titles (console_group s tgt cmd out err) = [''undefined '' @ bold tgt])"
proof (intro conjI impI allI)
  assume "s \<in> set ActionStatus"
  then show "\<exists>label. statusBadges_at s = Own label \<and> label \<noteq> []"
    by (auto simp: ActionStatus_def statusBadges_at_def statusBadges_def
        bgGreen_def bgRed_def bgBlue_def)
next
  fix label
  assume "s \<notin> set ActionStatus"
  with statusBadges_at_Own [of s] show "statusBadges_at s \<noteq> Own label" by blast
next
  assume "s \<notin> set ActionStatus"
  then show "getStatusEmoji s = question_mark"
    by (simp add: getStatusEmoji_def ActionStatus_def)
next
  show "getStatusEmoji s \<noteq> []"
    by (simp add: getStatusEmoji_def check_mark_def cross_mark_def
        next_track_def floppy_disk_def runner_def question_mark_def)
next
  assume "statusBadges_at s = Undefined"
  then show "group_titles (console_group s tgt cmd out err) = [''undefined '' @ bold tgt]"
    by (simp add: console_group_def interpolate_def group_titles_append split: option.splits)
qed

text \<open>
  The status \<open>paused\<close> is none of the ten: its badge lookup gives \<^verbatim>\<open>undefined\<close> and the console
  title starts with that word, where the glyph function gives the glyph of the
  unknown class. The status \<open>failed\<close> has its label.
\<close>

theorem status_classifier_fallback_witness:
  "''paused'' \<notin> set ActionStatus
   \<and> statusBadges_at ''paused'' = Undefined
   \<and> group_titles (console_group ''paused'' ''proj:unknown'' None [] [])
       = [''undefined '' @ bold ''proj:unknown'']
   \<and> getStatusEmoji ''paused'' = question_mark
   \<and> ''failed'' \<in> set ActionStatus
   \<and> (\<exists>label. statusBadges_at ''failed'' = Own label \<and> label \<noteq> [])"
proof -
  have a: "''paused'' \<notin> set ActionStatus" "''failed'' \<in> set ActionStatus"
    by (simp_all add: ActionStatus_def)
  have b: "statusBadges_at ''paused'' = Undefined"
    by (simp add: statusBadges_at_def statusBadges_def object_prototype_def)
  from status_classifier_fallback [of "''paused''" "''proj:unknown''" None "[]" "[]"]
    status_classifier_fallback [of "''failed''"] a b
  show ?thesis by blast
qed

section \<open>Resolving the logs of a task\<close>

lemma sanitize_no_slash: "CHR ''/'' \<notin> set (sanitizeProjectName p)"
  by (auto simp: sanitizeProjectName_def)

lemma read_if_exists_cases:
  "read_if_exists disk p =
     (case disk p of
        Missing \<Rightarrow> (Inr [], [Stat p])
      | Readable c \<Rightarrow> (Inr c, [Stat p, ReadFile p])
      | Unreadable \<Rightarrow> (Inl (ReadError p), [Stat p, ReadFile p]))"
  by (simp add: read_if_exists_def fileExists_def readFile_def split: fs_entry.splits)

text \<open>
  Claim C7: the logs of a task are \<^verbatim>\<open>stdout.log\<close> and \<^verbatim>\<open>stderr.log\<close> in the directory
  \<^verbatim>\<open><root>/.moon/cache/states/<sanitized-project>/<task>\<close>. The sanitized project is the
  project with a hyphen in the place of every slash and every other character kept
  where it is (so \<open>libs/ui\<close> becomes \<open>libs-ui\<close> and \<open>a/b/c-d\<close> becomes \<open>a-b-c-d\<close>); it holds
  no slash. The two files are read independently, only these two paths are touched,
  and a file that is missing gives the empty text for its stream, whatever the other
  stream is.
\<close>

theorem readStatus_resolution:
  assumes "disk (stdoutPath root ti) \<noteq> Unreadable"
    and "disk (stderrPath root ti) \<noteq> Unreadable"
  shows "stdoutPath root ti =
           root @ ''/.moon/cache/states/'' @ sanitizeProjectName (project ti) @ ''/'' @ task ti
             @ ''/stdout.log''
       \<and> stderrPath root ti =
           root @ ''/.moon/cache/states/'' @ sanitizeProjectName (project ti) @ ''/'' @ task ti
             @ ''/stderr.log''
       \<and> CHR ''/'' \<notin> set (sanitizeProjectName (project ti))
       \<and> length (sanitizeProjectName (project ti)) = length (project ti)
       \<and> (\<forall>i < length (project ti).
             sanitizeProjectName (project ti) ! i
               = (if project ti ! i = CHR ''/'' then CHR ''-'' else project ti ! i))
       \<and> (CHR ''/'' \<notin> set (project ti) \<longrightarrow> sanitizeProjectName (project ti) = project ti)
       \<and> sanitizeProjectName (a @ b) = sanitizeProjectName a @ sanitizeProjectName b
       \<and> sanitizeProjectName ''/'' = ''-''
       \<and> sanitizeProjectName ''libs/ui'' = ''libs-ui''
       \<and> sanitizeProjectName ''a/b/c-d'' = ''a-b-c-d''
       \<and> fst (readStatus disk root ti) =
           Inr (case disk (stdoutPath root ti) of Readable c \<Rightarrow> c | _ \<Rightarrow> [],
                case disk (stderrPath root ti) of Readable c \<Rightarrow> c | _ \<Rightarrow> [])
       \<and> set (snd (readStatus disk root ti))
           \<subseteq> {Stat (stdoutPath root ti), ReadFile (stdoutPath root ti),
               Stat (stderrPath root ti), ReadFile (stderrPath root ti)}"
proof -
  have paths: "stdoutPath root ti =
           root @ ''/.moon/cache/states/'' @ sanitizeProjectName (project ti) @ ''/'' @ task ti
             @ ''/stdout.log''"
     "stderrPath root ti =
           root @ ''/.moon/cache/states/'' @ sanitizeProjectName (project ti) @ ''/'' @ task ti
             @ ''/stderr.log''"
    by (simp_all add: stdoutPath_def stderrPath_def statusDir_def)
  have ex: "sanitizeProjectName ''libs/ui'' = ''libs-ui''"
    by (simp add: sanitizeProjectName_def)
  have len: "length (sanitizeProjectName (project ti)) = length (project ti)"
    by (simp add: sanitizeProjectName_def)
  have each: "\<forall>i < length (project ti).
             sanitizeProjectName (project ti) ! i
               = (if project ti ! i = CHR ''/'' then CHR ''-'' else project ti ! i)"
    by (simp add: sanitizeProjectName_def)
  have same: "CHR ''/'' \<notin> set (project ti) \<longrightarrow> sanitizeProjectName (project ti) = project ti"
    by (auto simp: sanitizeProjectName_def intro: map_idI)
  have app: "sanitizeProjectName (a @ b) = sanitizeProjectName a @ sanitizeProjectName b"
    by (simp add: sanitizeProjectName_def)
  have ex2: "sanitizeProjectName ''/'' = ''-''" "sanitizeProjectName ''a/b/c-d'' = ''a-b-c-d''"
    by (simp_all add: sanitizeProjectName_def)
  from assms have res: "fst (readStatus disk root ti) =
           Inr (case disk (stdoutPath root ti) of Readable c \<Rightarrow> c | _ \<Rightarrow> [],
                case disk (stderrPath root ti) of Readable c \<Rightarrow> c | _ \<Rightarrow> [])"
    by (simp add: readStatus_def read_if_exists_cases split: fs_entry.splits)
  from assms have evs: "set (snd (readStatus disk root ti))
           \<subseteq> {Stat (stdoutPath root ti), ReadFile (stdoutPath root ti),
               Stat (stderrPath root ti), ReadFile (stderrPath root ti)}"
    by (simp add: readStatus_def read_if_exists_cases split: fs_entry.splits)
  from paths ex ex2 len each same app res evs sanitize_no_slash show ?thesis by blast
qed

theorem readStatus_resolution_witness:
  "sample_disk (stdoutPath ''/work'' sample_target) \<noteq> Unreadable
   \<and> sample_disk (stderrPath ''/work'' sample_target) \<noteq> Unreadable
   \<and> stdoutPath ''/work'' sample_target = ''/work/.moon/cache/states/libs-ui/test/stdout.log''
   \<and> stderrPath ''/work'' sample_target = ''/work/.moon/cache/states/libs-ui/test/stderr.log''
   \<and> sample_disk (stderrPath ''/work'' sample_target) = Missing
   \<and> fst (readStatus sample_disk ''/work'' sample_target) = Inr (''ok'' @ [CHR 0x0A], [])"
proof -
  have p1: "stdoutPath ''/work'' sample_target = ''/work/.moon/cache/states/libs-ui/test/stdout.log''"
    by (simp add: stdoutPath_def statusDir_def sample_target_def sanitizeProjectName_def)
  have p2: "stderrPath ''/work'' sample_target = ''/work/.moon/cache/states/libs-ui/test/stderr.log''"
    by (simp add: stderrPath_def statusDir_def sample_target_def sanitizeProjectName_def)
  have d1: "sample_disk ''/work/.moon/cache/states/libs-ui/test/stdout.log''
              = Readable (''ok'' @ [CHR 0x0A])"
    by (simp add: sample_disk_def)
  have d2: "sample_disk ''/work/.moon/cache/states/libs-ui/test/stderr.log'' = Missing"
    by (simp add: sample_disk_def)
  have h1: "sample_disk (stdoutPath ''/work'' sample_target) \<noteq> Unreadable"
    by (simp add: p1 d1)
  have h2: "sample_disk (stderrPath ''/work'' sample_target) \<noteq> Unreadable"
    by (simp add: p2 d2)
  from readStatus_resolution [OF h1 h2] show ?thesis
    by (simp add: p1 p2 d1 d2)
qed

section \<open>The report locator\<close>

lemma js_split_nonempty: "js_split sep t \<noteq> []"
  by (subst js_split_eq) simp

lemma js_split_append: "js_split sep (a @ sep # b) = js_split sep a @ js_split sep b"
proof (induction a)
  case Nil
  show ?case by simp
next
  case (Cons c cs)
  obtain p ps where split_cs: "js_split sep cs = p # ps"
    using js_split_nonempty [of sep cs] by (cases "js_split sep cs") auto
  with Cons show ?case by simp
qed

lemma normalizeString_append:
  "normalizeString allow res (xs @ ys) =
     normalizeString allow (rev (normalizeString allow res xs)) ys"
  by (induction xs arbitrary: res) (auto split: list.splits)

lemma normalizeString_plain:
  "\<forall>s \<in> set segs. s \<noteq> [] \<and> s \<noteq> ''.'' \<and> s \<noteq> ''..'' \<Longrightarrow>
     normalizeString allow res segs = rev res @ segs"
  by (induction segs arbitrary: res) auto

lemma js_join_append:
  "ys \<noteq> [] \<Longrightarrow>
     js_join sep (xs @ ys) = (if xs = [] then [] else js_join sep xs @ sep) @ js_join sep ys"
proof (induction sep xs rule: js_join.induct)
  case (1 sep)
  show ?case by simp
next
  case (2 sep x)
  then show ?case by (cases ys) auto
next
  case (3 sep x y zs)
  then show ?case by simp
qed

lemma normalize_under:
  assumes root: "root \<noteq> []"
    and segs: "js_split CHR ''/'' L = segs"
    and plain: "\<forall>s \<in> set segs. s \<noteq> [] \<and> s \<noteq> ''.'' \<and> s \<noteq> ''..''"
    and L: "L \<noteq> []" "last L \<noteq> CHR ''/''"
  shows "normalize (root @ CHR ''/'' # L) =
           (if hd root = CHR ''/'' then ''/'' else [])
           @ (if normalizeString (hd root \<noteq> CHR ''/'') [] (js_split CHR ''/'' root) = [] then []
              else js_join ''/'' (normalizeString (hd root \<noteq> CHR ''/'') [] (js_split CHR ''/'' root))
                   @ ''/'')
           @ js_join ''/'' segs"
proof -
  let ?abs = "hd root = CHR ''/''"
  let ?zs = "normalizeString (\<not> ?abs) [] (js_split CHR ''/'' root)"
  have ne: "segs \<noteq> []" using segs js_split_nonempty by auto
  have tail: "js_join ''/'' segs \<noteq> []"
  proof (cases segs)
    case Nil
    with ne show ?thesis by simp
  next
    case (Cons s rest)
    with plain have "s \<noteq> []" by simp
    with Cons show ?thesis by (cases rest) auto
  qed
  have "normalizeString (\<not> ?abs) [] (js_split CHR ''/'' (root @ CHR ''/'' # L)) = ?zs @ segs"
    by (simp add: js_split_append segs normalizeString_append normalizeString_plain [OF plain])
  then have q: "js_join ''/'' (normalizeString (\<not> ?abs) [] (js_split CHR ''/'' (root @ CHR ''/'' # L)))
      = (if ?zs = [] then [] else js_join ''/'' ?zs @ ''/'') @ js_join ''/'' segs"
    by (simp add: js_join_append [OF ne])
  have hd: "hd (root @ CHR ''/'' # L) = hd root" using root by simp
  have last: "last (root @ CHR ''/'' # L) = last L" using L by simp
  show ?thesis
    unfolding normalize_def Let_def hd last q using L tail by simp
qed

lemma reportPath_under_cache:
  "\<exists>pre. reportPath root ''ciReport.json'' = pre @ ''.moon/cache/ciReport.json''
       \<and> reportPath root ''runReport.json'' = pre @ ''.moon/cache/runReport.json''"
proof -
  have l1: "localPath ''ciReport.json'' = ''.moon/cache/ciReport.json''"
    by (simp add: localPath_def path_join_def normalize_def)
  have l2: "localPath ''runReport.json'' = ''.moon/cache/runReport.json''"
    by (simp add: localPath_def path_join_def normalize_def)
  show ?thesis
  proof (cases "root = []")
    case True
    have "reportPath [] ''ciReport.json'' = ''.moon/cache/ciReport.json''"
      by (simp add: reportPath_def l1 path_join_def normalize_def)
    moreover have "reportPath [] ''runReport.json'' = ''.moon/cache/runReport.json''"
      by (simp add: reportPath_def l2 path_join_def normalize_def)
    ultimately show ?thesis using True by simp
  next
    case False
    have "reportPath root ''ciReport.json'' = normalize (root @ CHR ''/'' # ''.moon/cache/ciReport.json'')"
      using False by (simp add: reportPath_def l1 path_join_def)
    moreover have "reportPath root ''runReport.json'' = normalize (root @ CHR ''/'' # ''.moon/cache/runReport.json'')"
      using False by (simp add: reportPath_def l2 path_join_def)
    moreover note normalize_under [OF False, of "''.moon/cache/ciReport.json''" "[''.moon'', ''cache'', ''ciReport.json'']"]
      normalize_under [OF False, of "''.moon/cache/runReport.json''" "[''.moon'', ''cache'', ''runReport.json'']"]
    ultimately show ?thesis by simp
  qed
qed

lemma reportPath_distinct: "reportPath root ''ciReport.json'' \<noteq> reportPath root ''runReport.json''"
  using reportPath_under_cache [of root] by auto

lemma loadReport_unfold:
  "loadReport disk decode root =
     (let ci = reportPath root ''ciReport.json''; run = reportPath root ''runReport.json'';
          f1 = [Debug (''Finding run report at '' @ localPath ''ciReport.json''), Stat ci];
          f2 = [Debug (''Finding run report at '' @ localPath ''runReport.json''), Stat run]
      in if disk ci \<noteq> Missing then
           (case fst (parseJson disk decode ci) of Inl e \<Rightarrow> Inl e | Inr r \<Rightarrow> Inr (Some r),
            f1 @ [Debug ''Found!'', ReadFile ci])
         else if disk run \<noteq> Missing then
           (case fst (parseJson disk decode run) of Inl e \<Rightarrow> Inl e | Inr r \<Rightarrow> Inr (Some r),
            f1 @ f2 @ [Debug ''Found!'', ReadFile run])
         else (Inr None, f1 @ f2))"
  by (simp add: loadReport_def fileExists_def parseJson_def readFile_def Let_def
      split: fs_entry.splits option.splits)

text \<open>
  Claim C6: the locator asks the disk about \<^verbatim>\<open>ciReport.json\<close> first and \<^verbatim>\<open>runReport.json\<close>
  second, both under \<^verbatim>\<open>.moon/cache\<close> of the workspace root. It gives the parsed content of
  the first that exists. When \<^verbatim>\<open>ciReport.json\<close> exists it is the one read and parsed, and
  \<^verbatim>\<open>runReport.json\<close> is neither looked for nor read; when only \<^verbatim>\<open>runReport.json\<close> exists it
  is the one read and parsed; when neither exists the locator gives the null signal.
\<close>

theorem loadReport_priority:
  "(disk (reportPath root ''ciReport.json'') \<noteq> Missing \<longrightarrow>
      loadReport disk decode root =
        (case fst (parseJson disk decode (reportPath root ''ciReport.json'')) of
           Inl e \<Rightarrow> Inl e
         | Inr report \<Rightarrow> Inr (Some report),
         [Debug (''Finding run report at '' @ localPath ''ciReport.json''),
          Stat (reportPath root ''ciReport.json''),
          Debug ''Found!'',
          ReadFile (reportPath root ''ciReport.json'')])
      \<and> Stat (reportPath root ''runReport.json'') \<notin> set (snd (loadReport disk decode root))
      \<and> ReadFile (reportPath root ''runReport.json'') \<notin> set (snd (loadReport disk decode root)))
   \<and> (disk (reportPath root ''ciReport.json'') = Missing \<longrightarrow>
      disk (reportPath root ''runReport.json'') \<noteq> Missing \<longrightarrow>
      loadReport disk decode root =
        (case fst (parseJson disk decode (reportPath root ''runReport.json'')) of
           Inl e \<Rightarrow> Inl e
         | Inr report \<Rightarrow> Inr (Some report),
         [Debug (''Finding run report at '' @ localPath ''ciReport.json''),
          Stat (reportPath root ''ciReport.json''),
          Debug (''Finding run report at '' @ localPath ''runReport.json''),
          Stat (reportPath root ''runReport.json''),
          Debug ''Found!'',
          ReadFile (reportPath root ''runReport.json'')]))
   \<and> (disk (reportPath root ''ciReport.json'') = Missing \<longrightarrow>
      disk (reportPath root ''runReport.json'') = Missing \<longrightarrow>
      loadReport disk decode root =
        (Inr None,
         [Debug (''Finding run report at '' @ localPath ''ciReport.json''),
          Stat (reportPath root ''ciReport.json''),
          Debug (''Finding run report at '' @ localPath ''runReport.json''),
          Stat (reportPath root ''runReport.json'')]))
   \<and> (disk path = Readable content \<longrightarrow> decode content = Some report \<longrightarrow>
      fst (parseJson disk decode path) = Inr report)
   \<and> (\<exists>pre. reportPath root ''ciReport.json'' = pre @ ''.moon/cache/ciReport.json''
           \<and> reportPath root ''runReport.json'' = pre @ ''.moon/cache/runReport.json'')"
proof (intro conjI impI)
  show "\<exists>pre. reportPath root ''ciReport.json'' = pre @ ''.moon/cache/ciReport.json''
           \<and> reportPath root ''runReport.json'' = pre @ ''.moon/cache/runReport.json''"
    by (rule reportPath_under_cache)
next
  assume "disk path = Readable content" and "decode content = Some report"
  then show "fst (parseJson disk decode path) = Inr report"
    by (simp add: parseJson_def readFile_def)
next
  assume ci: "disk (reportPath root ''ciReport.json'') \<noteq> Missing"
  then show "loadReport disk decode root =
        (case fst (parseJson disk decode (reportPath root ''ciReport.json'')) of
           Inl e \<Rightarrow> Inl e
         | Inr report \<Rightarrow> Inr (Some report),
         [Debug (''Finding run report at '' @ localPath ''ciReport.json''),
          Stat (reportPath root ''ciReport.json''),
          Debug ''Found!'',
          ReadFile (reportPath root ''ciReport.json'')])"
    by (simp add: loadReport_unfold Let_def)
  from ci reportPath_distinct [of root]
  show "Stat (reportPath root ''runReport.json'') \<notin> set (snd (loadReport disk decode root))"
    by (auto simp: loadReport_unfold Let_def)
  from ci reportPath_distinct [of root]
  show "ReadFile (reportPath root ''runReport.json'') \<notin> set (snd (loadReport disk decode root))"
    by (auto simp: loadReport_unfold Let_def)
next
  assume "disk (reportPath root ''ciReport.json'') = Missing"
    and "disk (reportPath root ''runReport.json'') \<noteq> Missing"
  then show "loadReport disk decode root =
        (case fst (parseJson disk decode (reportPath root ''runReport.json'')) of
           Inl e \<Rightarrow> Inl e
         | Inr report \<Rightarrow> Inr (Some report),
         [Debug (''Finding run report at '' @ localPath ''ciReport.json''),
          Stat (reportPath root ''ciReport.json''),
          Debug (''Finding run report at '' @ localPath ''runReport.json''),
          Stat (reportPath root ''runReport.json''),
          Debug ''Found!'',
          ReadFile (reportPath root ''runReport.json'')])"
    by (simp add: loadReport_unfold Let_def)
next
  assume "disk (reportPath root ''ciReport.json'') = Missing"
    and "disk (reportPath root ''runReport.json'') = Missing"
  then show "loadReport disk decode root =
        (Inr None,
         [Debug (''Finding run report at '' @ localPath ''ciReport.json''),
          Stat (reportPath root ''ciReport.json''),
          Debug (''Finding run report at '' @ localPath ''runReport.json''),
          Stat (reportPath root ''runReport.json'')])"
    by (simp add: loadReport_unfold Let_def)
qed

lemma work_paths:
  "reportPath ''/work'' ''ciReport.json'' = ''/work/.moon/cache/ciReport.json''"
  "reportPath ''/work'' ''runReport.json'' = ''/work/.moon/cache/runReport.json''"
  "localPath ''ciReport.json'' = ''.moon/cache/ciReport.json''"
  "localPath ''runReport.json'' = ''.moon/cache/runReport.json''"
  by (simp_all add: reportPath_def localPath_def path_join_def normalize_def)

theorem loadReport_priority_witness:
  "sample_disk ''/work/.moon/cache/ciReport.json'' = Readable ''ci''
   \<and> sample_disk ''/work/.moon/cache/runReport.json'' = Readable ''run''
   \<and> loadReport sample_disk sample_decode ''/work'' =
       (Inr (Some sample_report),
        [Debug ''Finding run report at .moon/cache/ciReport.json'',
         Stat ''/work/.moon/cache/ciReport.json'',
         Debug ''Found!'',
         ReadFile ''/work/.moon/cache/ciReport.json''])
   \<and> fst (loadReport run_only_disk sample_decode ''/work'') = Inr (Some empty_report)
   \<and> fst (loadReport empty_disk sample_decode ''/work'') = Inr None"
proof -
  have d: "sample_disk ''/work/.moon/cache/ciReport.json'' = Readable ''ci''"
    "sample_disk ''/work/.moon/cache/runReport.json'' = Readable ''run''"
    "run_only_disk ''/work/.moon/cache/ciReport.json'' = Missing"
    "run_only_disk ''/work/.moon/cache/runReport.json'' = Readable ''run''"
    "empty_disk ''/work/.moon/cache/ciReport.json'' = Missing"
    "empty_disk ''/work/.moon/cache/runReport.json'' = Missing"
    by (simp_all add: sample_disk_def run_only_disk_def empty_disk_def)
  have dec: "sample_decode ''ci'' = Some sample_report" "sample_decode ''run'' = Some empty_report"
    by (simp_all add: sample_decode_def)
  from loadReport_priority [of sample_disk "''/work''" sample_decode
      "''/work/.moon/cache/ciReport.json''" "''ci''" sample_report]
    loadReport_priority [of run_only_disk "''/work''" sample_decode
      "''/work/.moon/cache/runReport.json''" "''run''" empty_report]
    loadReport_priority [of empty_disk "''/work''" sample_decode]
  show ?thesis
    by (simp add: work_paths d dec)
qed

section \<open>The failure policy\<close>

text \<open>
  Claim C8: the exit code of the process is 0 in every run. An error that escapes
  \<^verbatim>\<open>main\<close> (a report that cannot be parsed, a log that cannot be read, a summary the host
  platform rejects) is caught at top level, printed after everything \<^verbatim>\<open>main\<close> did, and
  followed by an exit with code 0. A missing report is a warning, after which \<^verbatim>\<open>main\<close>
  returns and the process ends on its own.
\<close>

theorem top_level_exit_zero:
  "exit_code (fst (top_level env write disk decode cwd)) = 0
   \<and> (fst (main env write disk decode cwd) = Some e \<longrightarrow>
        top_level env write disk decode cwd = (Exit 0, snd (main env write disk decode cwd) @ [ConsoleError e]))
   \<and> (fst (main env write disk decode cwd) = None \<longrightarrow>
        top_level env write disk decode cwd = (Returned, snd (main env write disk decode cwd)))
   \<and> (disk (reportPath cwd ''ciReport.json'') = Readable content \<longrightarrow> decode content = None \<longrightarrow>
        fst (main env write disk decode cwd) = Some (ParseError (reportPath cwd ''ciReport.json'')))
   \<and> (disk (reportPath cwd ''ciReport.json'') = Missing \<longrightarrow>
      disk (reportPath cwd ''runReport.json'') = Missing \<longrightarrow>
        main env write disk decode cwd =
          (None,
           [Debug (''Finding run report at '' @ localPath ''ciReport.json''),
            Stat (reportPath cwd ''ciReport.json''),
            Debug (''Finding run report at '' @ localPath ''runReport.json''),
            Stat (reportPath cwd ''runReport.json''),
            Warning ''Run report does not exist, has `moon ci` or `moon run` ran?'']))"
proof (intro conjI impI)
  show "exit_code (fst (top_level env write disk decode cwd)) = 0"
    by (simp add: top_level_def exit_code_def split: prod.splits option.splits)
next
  assume "fst (main env write disk decode cwd) = Some e"
  then show "top_level env write disk decode cwd
      = (Exit 0, snd (main env write disk decode cwd) @ [ConsoleError e])"
    by (cases "main env write disk decode cwd") (simp add: top_level_def)
next
  assume "fst (main env write disk decode cwd) = None"
  then show "top_level env write disk decode cwd = (Returned, snd (main env write disk decode cwd))"
    by (cases "main env write disk decode cwd") (simp add: top_level_def)
next
  assume "disk (reportPath cwd ''ciReport.json'') = Readable content" and "decode content = None"
  then show "fst (main env write disk decode cwd) = Some (ParseError (reportPath cwd ''ciReport.json''))"
    by (simp add: main_def loadReport_unfold Let_def parseJson_def readFile_def)
next
  assume "disk (reportPath cwd ''ciReport.json'') = Missing"
    and "disk (reportPath cwd ''runReport.json'') = Missing"
  then show "main env write disk decode cwd =
          (None,
           [Debug (''Finding run report at '' @ localPath ''ciReport.json''),
            Stat (reportPath cwd ''ciReport.json''),
            Debug (''Finding run report at '' @ localPath ''runReport.json''),
            Stat (reportPath cwd ''runReport.json''),
            Warning ''Run report does not exist, has `moon ci` or `moon run` ran?''])"
    by (simp add: main_def loadReport_unfold Let_def)
qed

lemma rejected_write:
  "fst (main github_env rejecting_write sample_disk sample_decode ''/work'')
     = Some (SummaryError ''Unable to find environment variable for $GITHUB_STEP_SUMMARY'')"
  by code_simp

theorem top_level_exit_zero_witness:
  "malformed_disk ''/work/.moon/cache/ciReport.json'' = Readable ''{''
   \<and> sample_decode ''{'' = None
   \<and> fst (main Map.empty accepting_write malformed_disk sample_decode ''/work'')
       = Some (ParseError ''/work/.moon/cache/ciReport.json'')
   \<and> top_level Map.empty accepting_write malformed_disk sample_decode ''/work''
       = (Exit 0,
          snd (main Map.empty accepting_write malformed_disk sample_decode ''/work'')
            @ [ConsoleError (ParseError ''/work/.moon/cache/ciReport.json'')])
   \<and> exit_code (fst (top_level Map.empty accepting_write malformed_disk sample_decode ''/work'')) = 0
   \<and> top_level Map.empty accepting_write empty_disk sample_decode ''/work'' =
       (Returned,
        [Debug ''Finding run report at .moon/cache/ciReport.json'',
         Stat ''/work/.moon/cache/ciReport.json'',
         Debug ''Finding run report at .moon/cache/runReport.json'',
         Stat ''/work/.moon/cache/runReport.json'',
         Warning ''Run report does not exist, has `moon ci` or `moon run` ran?''])
   \<and> fst (main github_env rejecting_write sample_disk sample_decode ''/work'')
       = Some (SummaryError ''Unable to find environment variable for $GITHUB_STEP_SUMMARY'')
   \<and> top_level github_env rejecting_write sample_disk sample_decode ''/work''
       = (Exit 0,
          snd (main github_env rejecting_write sample_disk sample_decode ''/work'')
            @ [ConsoleError
                 (SummaryError ''Unable to find environment variable for $GITHUB_STEP_SUMMARY'')])
   \<and> exit_code (fst (top_level github_env rejecting_write sample_disk sample_decode ''/work'')) = 0"
proof -
  have d: "malformed_disk ''/work/.moon/cache/ciReport.json'' = Readable ''{''"
    "empty_disk ''/work/.moon/cache/ciReport.json'' = Missing"
    "empty_disk ''/work/.moon/cache/runReport.json'' = Missing"
    by (simp_all add: malformed_disk_def empty_disk_def)
  have dec: "sample_decode ''{'' = None"
    by (simp add: sample_decode_def)
  note rejected = top_level_exit_zero [of github_env rejecting_write sample_disk sample_decode
      "''/work''" "SummaryError ''Unable to find environment variable for $GITHUB_STEP_SUMMARY''"]
  from rejected rejected_write
  have r1: "top_level github_env rejecting_write sample_disk sample_decode ''/work''
       = (Exit 0,
          snd (main github_env rejecting_write sample_disk sample_decode ''/work'')
            @ [ConsoleError
                 (SummaryError ''Unable to find environment variable for $GITHUB_STEP_SUMMARY'')])"
    by (simp only:)
  from rejected
  have r2: "exit_code (fst (top_level github_env rejecting_write sample_disk sample_decode ''/work'')) = 0"
    by (rule conjunct1)
  from top_level_exit_zero [of Map.empty accepting_write malformed_disk sample_decode "''/work''"
      "ParseError ''/work/.moon/cache/ciReport.json''" "''{''"]
    top_level_exit_zero [of Map.empty accepting_write empty_disk sample_decode "''/work''"
      "ParseError []" "[]"]
  have first: "malformed_disk ''/work/.moon/cache/ciReport.json'' = Readable ''{''
   \<and> sample_decode ''{'' = None
   \<and> fst (main Map.empty accepting_write malformed_disk sample_decode ''/work'')
       = Some (ParseError ''/work/.moon/cache/ciReport.json'')
   \<and> top_level Map.empty accepting_write malformed_disk sample_decode ''/work''
       = (Exit 0,
          snd (main Map.empty accepting_write malformed_disk sample_decode ''/work'')
            @ [ConsoleError (ParseError ''/work/.moon/cache/ciReport.json'')])
   \<and> exit_code (fst (top_level Map.empty accepting_write malformed_disk sample_decode ''/work'')) = 0
   \<and> top_level Map.empty accepting_write empty_disk sample_decode ''/work'' =
       (Returned,
        [Debug ''Finding run report at .moon/cache/ciReport.json'',
         Stat ''/work/.moon/cache/ciReport.json'',
         Debug ''Finding run report at .moon/cache/runReport.json'',
         Stat ''/work/.moon/cache/runReport.json'',
         Warning ''Run report does not exist, has `moon ci` or `moon run` ran?''])"
    by (simp add: work_paths d dec exit_code_def)
  from first rejected_write r1 r2 show ?thesis by (elim conjE, intro conjI) assumption+
qed

section \<open>Trimming\<close>

text \<open>
  The trimmed text is empty exactly when the text is made of whitespace characters
  only. The proof rests on the encodings of the whitespace characters being
  prefix-free: the first byte of an encoding fixes its length.
\<close>

lemma whitespace_length:
  "w \<in> set whitespace \<Longrightarrow>
     length w = (if hd w = CHR 0xC2 then 2
                 else if hd w = CHR 0xE1 \<or> hd w = CHR 0xE2 \<or> hd w = CHR 0xE3 \<or> hd w = CHR 0xEF
                 then 3 else 1)"
  by (auto simp: whitespace_def)

lemma whitespace_first_byte:
  "w \<in> set whitespace \<Longrightarrow> w' \<in> set whitespace \<Longrightarrow> hd w = hd w' \<Longrightarrow> length w = length w'"
  by (simp add: whitespace_length)

lemma whitespace_nonempty: "w \<in> set whitespace \<Longrightarrow> w \<noteq> []"
  by (auto simp: whitespace_def)

lemma ws_prefix_whitespace:
  assumes "w \<in> set whitespace"
  shows "ws_prefix (w @ rest) = Some w"
proof -
  have "\<exists>w'. ws_prefix (w @ rest) = Some w'"
    using assms by (cases "ws_prefix (w @ rest)") (auto simp: ws_prefix_def find_None_iff)
  then obtain w' where found: "ws_prefix (w @ rest) = Some w'" by blast
  then have mem: "w' \<in> set whitespace" and pre: "take (length w') (w @ rest) = w'"
    by (auto simp: ws_prefix_def find_Some_iff)
  from mem assms have ne: "w' \<noteq> []" "w \<noteq> []" by (auto dest: whitespace_nonempty)
  from pre ne have "hd w' = hd w"
    by (cases w; cases w') auto
  with whitespace_first_byte [OF mem assms] have "length w' = length w" by simp
  with pre have "w' = w" by simp
  with found show ?thesis by simp
qed

lemma trimStart_whitespace:
  "set ws \<subseteq> set whitespace \<Longrightarrow> trimStart (concat ws) = []"
proof (induction ws)
  case Nil
  show ?case by (subst trimStart.simps) (simp add: ws_prefix_def whitespace_def)
next
  case (Cons w ws)
  then have "ws_prefix (w @ concat ws) = Some w" by (simp add: ws_prefix_whitespace)
  with Cons show ?case by (subst trimStart.simps) (simp del: trimStart.simps)
qed

lemma trimEnd_Nil: "trimEnd [] = []"
  by (subst trimEnd.simps) (simp add: ws_suffix_def whitespace_def)

lemma trimStart_splits:
  "\<exists>ws. set ws \<subseteq> set whitespace \<and> s = concat ws @ trimStart s"
proof (induction s rule: trimStart.induct)
  case (1 s)
  show ?case
  proof (cases "ws_prefix s")
    case None
    then have "trimStart s = s" by (subst trimStart.simps) simp
    then have "set [] \<subseteq> set whitespace \<and> s = concat [] @ trimStart s" by simp
    then show ?thesis by blast
  next
    case (Some w)
    then have mem: "w \<in> set whitespace" and pre: "take (length w) s = w"
      by (auto simp: ws_prefix_def find_Some_iff)
    from Some have step: "trimStart s = trimStart (drop (length w) s)"
      by (subst trimStart.simps) simp
    from "1.IH" [OF Some] obtain ws where
      ws: "set ws \<subseteq> set whitespace" "drop (length w) s = concat ws @ trimStart (drop (length w) s)"
      by blast
    define t where "t = drop (length w) s"
    have "s = take (length w) s @ drop (length w) s" by simp
    with pre have s_eq: "s = w @ t" by (simp add: t_def)
    have t_eq: "t = concat ws @ trimStart t" unfolding t_def by (rule ws(2))
    have step': "trimStart s = trimStart t" unfolding t_def by (rule step)
    have "s = w @ t" by (rule s_eq)
    also have "\<dots> = w @ (concat ws @ trimStart t)"
      by (rule arg_cong [of t "concat ws @ trimStart t" "\<lambda>x. w @ x", OF t_eq])
    also have "\<dots> = concat (w # ws) @ trimStart s"
      by (simp add: step' del: trimStart.simps)
    finally have "s = concat (w # ws) @ trimStart s" .
    moreover from mem ws(1) have "set (w # ws) \<subseteq> set whitespace" by simp
    ultimately show ?thesis by blast
  qed
qed

lemma trimEnd_splits:
  "\<exists>ws. set ws \<subseteq> set whitespace \<and> s = trimEnd s @ concat ws"
proof (induction s rule: trimEnd.induct)
  case (1 s)
  show ?case
  proof (cases "ws_suffix s")
    case None
    then have "trimEnd s = s" by (subst trimEnd.simps) simp
    then have "set [] \<subseteq> set whitespace \<and> s = trimEnd s @ concat []" by simp
    then show ?thesis by blast
  next
    case (Some w)
    then have mem: "w \<in> set whitespace" and le: "length w \<le> length s"
      and suf: "drop (length s - length w) s = w"
      by (auto simp: ws_suffix_def find_Some_iff)
    from Some have step: "trimEnd s = trimEnd (take (length s - length w) s)"
      by (subst trimEnd.simps) simp
    from "1.IH" [OF Some] obtain ws where
      ws: "set ws \<subseteq> set whitespace"
        "take (length s - length w) s = trimEnd (take (length s - length w) s) @ concat ws"
      by blast
    define t where "t = take (length s - length w) s"
    have "s = take (length s - length w) s @ drop (length s - length w) s" by simp
    with suf have s_eq: "s = t @ w" by (simp add: t_def)
    have t_eq: "t = trimEnd t @ concat ws" unfolding t_def by (rule ws(2))
    have step': "trimEnd s = trimEnd t" unfolding t_def by (rule step)
    have "s = t @ w" by (rule s_eq)
    also have "\<dots> = (trimEnd t @ concat ws) @ w"
      by (rule arg_cong [of t "trimEnd t @ concat ws" "\<lambda>x. x @ w", OF t_eq])
    also have "\<dots> = trimEnd s @ concat (ws @ [w])"
      by (simp add: step' del: trimEnd.simps)
    finally have "s = trimEnd s @ concat (ws @ [w])" .
    moreover from mem ws(1) have "set (ws @ [w]) \<subseteq> set whitespace" by simp
    ultimately show ?thesis by blast
  qed
qed

lemma trim_empty_iff:
  "trim s = [] \<longleftrightarrow> (\<exists>ws. set ws \<subseteq> set whitespace \<and> s = concat ws)"
proof
  assume empty: "trim s = []"
  from trimStart_splits [of s] obtain ws1 where
    ws1: "set ws1 \<subseteq> set whitespace" "s = concat ws1 @ trimStart s" by blast
  from trimEnd_splits [of "trimStart s"] obtain ws2 where
    ws2: "set ws2 \<subseteq> set whitespace" "trimStart s = trimEnd (trimStart s) @ concat ws2" by blast
  from empty ws2(2) have "trimStart s = concat ws2"
    by (simp add: trim_def del: trimStart.simps trimEnd.simps)
  with ws1(2) have "s = concat (ws1 @ ws2)" by simp
  moreover from ws1(1) ws2(1) have "set (ws1 @ ws2) \<subseteq> set whitespace" by simp
  ultimately show "\<exists>ws. set ws \<subseteq> set whitespace \<and> s = concat ws" by blast
next
  assume "\<exists>ws. set ws \<subseteq> set whitespace \<and> s = concat ws"
  then obtain ws where "set ws \<subseteq> set whitespace" "s = concat ws" by blast
  then show "trim s = []"
    by (simp add: trim_def trimStart_whitespace trimEnd_Nil del: trimStart.simps trimEnd.simps)
qed

lemma trim_examples:
  "trim [CHR 0x20, CHR 0x09, CHR 0x0A] = []"
  "trim (''ok'' @ [CHR 0x0A]) = ''ok''"
  "trim ('' a b '') = ''a b''"
  "trim ([CHR 0xE3, CHR 0x80, CHR 0x80] @ ''x'' @ [CHR 0xC2, CHR 0xA0, CHR 0x0D, CHR 0x0A]) = ''x''"
  by code_simp+

section \<open>The loop over the actions\<close>

lemma readStatus_quiet:
  "group_titles (snd (readStatus disk root ti)) = []"
  "published (snd (readStatus disk root ti)) = []"
  by (simp_all add: readStatus_def read_if_exists_cases split: fs_entry.splits)

lemma console_group_quiet:
  "group_titles (console_group st tgt cmd out err)
     = [interpolate (statusBadges_at st) @ '' '' @ bold tgt]"
  "published (console_group st tgt cmd out err) = []"
  by (simp_all add: console_group_def group_titles_append published_append split: option.splits)

lemma main_loop_Cons_run:
  assumes "action (node a) = ''run-task''"
    and "readStatus disk root (parseTarget (params_target (node a))) = (Inr (out, err), evs)"
  shows "main_loop disk root (a # rest) acc =
     (fst (main_loop disk root rest
             (acc @ [\<lparr>target = project (parseTarget (params_target (node a))) @ '':''
                               @ task (parseTarget (params_target (node a))),
                      status = action_status a,
                      command = commandOf a,
                      hasStdout = (trim out \<noteq> []),
                      hasStderr = (trim err \<noteq> []),
                      stdout = (if trim out \<noteq> [] then Some out else None),
                      stderr = (if trim err \<noteq> [] then Some err else None)\<rparr>])),
      evs @ console_group (action_status a)
              (project (parseTarget (params_target (node a))) @ '':''
                 @ task (parseTarget (params_target (node a))))
              (commandOf a) out err
          @ snd (main_loop disk root rest
             (acc @ [\<lparr>target = project (parseTarget (params_target (node a))) @ '':''
                               @ task (parseTarget (params_target (node a))),
                      status = action_status a,
                      command = commandOf a,
                      hasStdout = (trim out \<noteq> []),
                      hasStderr = (trim err \<noteq> []),
                      stdout = (if trim out \<noteq> [] then Some out else None),
                      stderr = (if trim err \<noteq> [] then Some err else None)\<rparr>])))"
  using assms by (simp add: Let_def split: prod.splits)

lemma main_loop_Cons_fail:
  assumes "action (node a) = ''run-task''"
    and "readStatus disk root (parseTarget (params_target (node a))) = (Inl e, evs)"
  shows "main_loop disk root (a # rest) acc = (Inl e, evs)"
  using assms by (simp add: Let_def)

lemma main_loop_Cons_skip:
  assumes "action (node a) \<noteq> ''run-task''"
  shows "main_loop disk root (a # rest) acc = main_loop disk root rest acc"
  using assms by simp

lemma main_loop_inv:
  "main_loop disk root as acc = (Inr rs, evs) \<Longrightarrow>
     \<exists>new. rs = acc @ new
       \<and> list_all2
           (\<lambda>a r. \<exists>out err.
              fst (readStatus disk root (parseTarget (params_target (node a)))) = Inr (out, err)
              \<and> r = \<lparr>target = project (parseTarget (params_target (node a))) @ '':''
                               @ task (parseTarget (params_target (node a))),
                      status = action_status a,
                      command = commandOf a,
                      hasStdout = (trim out \<noteq> []),
                      hasStderr = (trim err \<noteq> []),
                      stdout = (if trim out \<noteq> [] then Some out else None),
                      stderr = (if trim err \<noteq> [] then Some err else None)\<rparr>)
           (run_tasks as) new
       \<and> group_titles evs
           = map (\<lambda>r. interpolate (statusBadges_at (status r)) @ '' '' @ bold (target r)) new
       \<and> published evs = []"
proof (induction as arbitrary: acc rs evs)
  case Nil
  then show ?case by (simp add: run_tasks_def)
next
  case (Cons a rest)
  show ?case
  proof (cases "action (node a) = ''run-task''")
    case False
    with Cons.prems have "main_loop disk root rest acc = (Inr rs, evs)"
      by (simp add: main_loop_Cons_skip)
    from Cons.IH [OF this] False show ?thesis by (simp add: run_tasks_def)
  next
    case True
    obtain res evs1 where rd: "readStatus disk root (parseTarget (params_target (node a))) = (res, evs1)"
      by (cases "readStatus disk root (parseTarget (params_target (node a)))")
    show ?thesis
    proof (cases res)
      case (Inl e)
      with True rd Cons.prems show ?thesis by (simp add: main_loop_Cons_fail)
    next
      case (Inr texts)
      obtain out err where texts: "texts = (out, err)" by (cases texts)
      let ?r = "\<lparr>target = project (parseTarget (params_target (node a))) @ '':''
                               @ task (parseTarget (params_target (node a))),
                      status = action_status a,
                      command = commandOf a,
                      hasStdout = (trim out \<noteq> []),
                      hasStderr = (trim err \<noteq> []),
                      stdout = (if trim out \<noteq> [] then Some out else None),
                      stderr = (if trim err \<noteq> [] then Some err else None)\<rparr>"
      obtain r' evs' where rec: "main_loop disk root rest (acc @ [?r]) = (r', evs')"
        by (cases "main_loop disk root rest (acc @ [?r])")
      from rd Inr texts have rd': "readStatus disk root (parseTarget (params_target (node a)))
          = (Inr (out, err), evs1)" by simp
      from main_loop_Cons_run [OF True rd', of rest acc] rec Cons.prems
      have r': "r' = Inr rs"
        and evs: "evs = evs1 @ console_group (action_status a) (target ?r) (commandOf a) out err @ evs'"
        by simp_all
      from Cons.IH [OF rec [unfolded r']] obtain new where
        new: "rs = (acc @ [?r]) @ new"
        and all: "list_all2
           (\<lambda>a r. \<exists>out err.
              fst (readStatus disk root (parseTarget (params_target (node a)))) = Inr (out, err)
              \<and> r = \<lparr>target = project (parseTarget (params_target (node a))) @ '':''
                               @ task (parseTarget (params_target (node a))),
                      status = action_status a,
                      command = commandOf a,
                      hasStdout = (trim out \<noteq> []),
                      hasStderr = (trim err \<noteq> []),
                      stdout = (if trim out \<noteq> [] then Some out else None),
                      stderr = (if trim err \<noteq> [] then Some err else None)\<rparr>)
           (run_tasks rest) new"
        and titles: "group_titles evs'
           = map (\<lambda>r. interpolate (statusBadges_at (status r)) @ '' '' @ bold (target r)) new"
        and pub: "published evs' = []"
        by blast
      have quiet: "group_titles evs1 = []" "published evs1 = []"
        using readStatus_quiet [of disk root "parseTarget (params_target (node a))"] rd' by simp_all
      have "rs = acc @ (?r # new)" using new by simp
      moreover have "list_all2
           (\<lambda>a r. \<exists>out err.
              fst (readStatus disk root (parseTarget (params_target (node a)))) = Inr (out, err)
              \<and> r = \<lparr>target = project (parseTarget (params_target (node a))) @ '':''
                               @ task (parseTarget (params_target (node a))),
                      status = action_status a,
                      command = commandOf a,
                      hasStdout = (trim out \<noteq> []),
                      hasStderr = (trim err \<noteq> []),
                      stdout = (if trim out \<noteq> [] then Some out else None),
                      stderr = (if trim err \<noteq> [] then Some err else None)\<rparr>)
           (run_tasks (a # rest)) (?r # new)"
        using True all rd' by (simp add: run_tasks_def)
      moreover have "group_titles evs
           = map (\<lambda>r. interpolate (statusBadges_at (status r)) @ '' '' @ bold (target r)) (?r # new)"
        by (simp add: evs group_titles_append quiet console_group_quiet titles)
      moreover have "published evs = []"
        by (simp add: evs published_append quiet console_group_quiet pub)
      ultimately show ?thesis by blast
    qed
  qed
qed

lemma readStatus_readable:
  assumes "disk (stdoutPath root ti) \<noteq> Unreadable" and "disk (stderrPath root ti) \<noteq> Unreadable"
  shows "\<exists>out err evs. readStatus disk root ti = (Inr (out, err), evs)"
  using assms by (simp add: readStatus_def read_if_exists_cases split: fs_entry.splits)

lemma main_loop_total:
  assumes "\<forall>a \<in> set as. action (node a) = ''run-task'' \<longrightarrow>
             disk (stdoutPath root (parseTarget (params_target (node a)))) \<noteq> Unreadable
             \<and> disk (stderrPath root (parseTarget (params_target (node a)))) \<noteq> Unreadable"
  shows "\<exists>rs. fst (main_loop disk root as acc) = Inr rs"
  using assms
proof (induction as arbitrary: acc)
  case Nil
  show ?case by simp
next
  case (Cons a rest)
  show ?case
  proof (cases "action (node a) = ''run-task''")
    case False
    with Cons show ?thesis by (simp add: main_loop_Cons_skip)
  next
    case True
    with Cons.prems obtain out err evs where
      "readStatus disk root (parseTarget (params_target (node a))) = (Inr (out, err), evs)"
      using readStatus_readable [of disk root "parseTarget (params_target (node a))"] by auto
    from main_loop_Cons_run [OF True this] Cons show ?thesis by simp
  qed
qed

lemma main_loop_no_tasks:
  "run_tasks as = [] \<Longrightarrow> main_loop disk root as acc = (Inr acc, [])"
proof (induction as)
  case Nil
  show ?case by simp
next
  case (Cons a rest)
  then show ?case by (cases "action (node a) = ''run-task''") (simp_all add: run_tasks_def)
qed

text \<open>
  Claim C3: in every task result the loop builds, the \<open>stdout\<close> field is there exactly
  when the text captured for standard output is not empty once trimmed, and it then
  holds the captured text itself, untrimmed; likewise for \<open>stderr\<close>. The captured texts
  are the two the log resolver gave for the target of the action. Trimming leaves
  nothing exactly when the text is made of whitespace characters only, so a field is
  absent exactly when its captured text is empty or all whitespace.
\<close>

theorem output_fields_presence:
  assumes "fst (main_loop disk root as []) = Inr rs"
  shows "list_all2
           (\<lambda>a r. \<exists>out err.
              fst (readStatus disk root (parseTarget (params_target (node a)))) = Inr (out, err)
              \<and> stdout r = (if trim out \<noteq> [] then Some out else None)
              \<and> stderr r = (if trim err \<noteq> [] then Some err else None)
              \<and> hasStdout r = (trim out \<noteq> [])
              \<and> hasStderr r = (trim err \<noteq> [])
              \<and> (stdout r = None \<longleftrightarrow> (\<exists>ws. set ws \<subseteq> set whitespace \<and> out = concat ws))
              \<and> (stderr r = None \<longleftrightarrow> (\<exists>ws. set ws \<subseteq> set whitespace \<and> err = concat ws)))
           (run_tasks as) rs
       \<and> (trim text = [] \<longleftrightarrow> (\<exists>ws. set ws \<subseteq> set whitespace \<and> text = concat ws))
       \<and> trim [] = []
       \<and> trim [CHR 0x20, CHR 0x09, CHR 0x0A] = []
       \<and> trim (''ok'' @ [CHR 0x0A]) = ''ok''
       \<and> trim '' a b '' = ''a b''"
proof -
  from assms have "main_loop disk root as [] = (Inr rs, snd (main_loop disk root as []))"
    by (cases "main_loop disk root as []") simp
  from main_loop_inv [OF this] have "list_all2
           (\<lambda>a r. \<exists>out err.
              fst (readStatus disk root (parseTarget (params_target (node a)))) = Inr (out, err)
              \<and> r = \<lparr>target = project (parseTarget (params_target (node a))) @ '':''
                               @ task (parseTarget (params_target (node a))),
                      status = action_status a,
                      command = commandOf a,
                      hasStdout = (trim out \<noteq> []),
                      hasStderr = (trim err \<noteq> []),
                      stdout = (if trim out \<noteq> [] then Some out else None),
                      stderr = (if trim err \<noteq> [] then Some err else None)\<rparr>)
           (run_tasks as) rs"
    by simp
  then have fields: "list_all2
           (\<lambda>a r. \<exists>out err.
              fst (readStatus disk root (parseTarget (params_target (node a)))) = Inr (out, err)
              \<and> stdout r = (if trim out \<noteq> [] then Some out else None)
              \<and> stderr r = (if trim err \<noteq> [] then Some err else None)
              \<and> hasStdout r = (trim out \<noteq> [])
              \<and> hasStderr r = (trim err \<noteq> [])
              \<and> (stdout r = None \<longleftrightarrow> (\<exists>ws. set ws \<subseteq> set whitespace \<and> out = concat ws))
              \<and> (stderr r = None \<longleftrightarrow> (\<exists>ws. set ws \<subseteq> set whitespace \<and> err = concat ws)))
           (run_tasks as) rs"
  proof (rule list_all2_mono)
    fix a r
    assume "\<exists>out err.
              fst (readStatus disk root (parseTarget (params_target (node a)))) = Inr (out, err)
              \<and> r = \<lparr>target = project (parseTarget (params_target (node a))) @ '':''
                               @ task (parseTarget (params_target (node a))),
                      status = action_status a,
                      command = commandOf a,
                      hasStdout = (trim out \<noteq> []),
                      hasStderr = (trim err \<noteq> []),
                      stdout = (if trim out \<noteq> [] then Some out else None),
                      stderr = (if trim err \<noteq> [] then Some err else None)\<rparr>"
    then obtain out err where
      rd: "fst (readStatus disk root (parseTarget (params_target (node a)))) = Inr (out, err)"
      and r: "r = \<lparr>target = project (parseTarget (params_target (node a))) @ '':''
                               @ task (parseTarget (params_target (node a))),
                      status = action_status a,
                      command = commandOf a,
                      hasStdout = (trim out \<noteq> []),
                      hasStderr = (trim err \<noteq> []),
                      stdout = (if trim out \<noteq> [] then Some out else None),
                      stderr = (if trim err \<noteq> [] then Some err else None)\<rparr>"
      by blast
    have "stdout r = None \<longleftrightarrow> trim out = []" "stderr r = None \<longleftrightarrow> trim err = []"
      by (simp_all add: r)
    then have absent: "stdout r = None \<longleftrightarrow> (\<exists>ws. set ws \<subseteq> set whitespace \<and> out = concat ws)"
      "stderr r = None \<longleftrightarrow> (\<exists>ws. set ws \<subseteq> set whitespace \<and> err = concat ws)"
      by (simp_all only: trim_empty_iff)
    have kept: "stdout r = (if trim out \<noteq> [] then Some out else None)"
      "stderr r = (if trim err \<noteq> [] then Some err else None)"
      "hasStdout r = (trim out \<noteq> [])" "hasStderr r = (trim err \<noteq> [])"
      by (simp_all add: r)
    show "\<exists>out err.
              fst (readStatus disk root (parseTarget (params_target (node a)))) = Inr (out, err)
              \<and> stdout r = (if trim out \<noteq> [] then Some out else None)
              \<and> stderr r = (if trim err \<noteq> [] then Some err else None)
              \<and> hasStdout r = (trim out \<noteq> [])
              \<and> hasStderr r = (trim err \<noteq> [])
              \<and> (stdout r = None \<longleftrightarrow> (\<exists>ws. set ws \<subseteq> set whitespace \<and> out = concat ws))
              \<and> (stderr r = None \<longleftrightarrow> (\<exists>ws. set ws \<subseteq> set whitespace \<and> err = concat ws))"
    proof (rule exI [of _ out], rule exI [of _ err], intro conjI)
      show "fst (readStatus disk root (parseTarget (params_target (node a)))) = Inr (out, err)"
        by (rule rd)
      show "stdout r = (if trim out \<noteq> [] then Some out else None)" by (rule kept(1))
      show "stderr r = (if trim err \<noteq> [] then Some err else None)" by (rule kept(2))
      show "hasStdout r = (trim out \<noteq> [])" by (rule kept(3))
      show "hasStderr r = (trim err \<noteq> [])" by (rule kept(4))
      show "stdout r = None \<longleftrightarrow> (\<exists>ws. set ws \<subseteq> set whitespace \<and> out = concat ws)"
        by (rule absent(1))
      show "stderr r = None \<longleftrightarrow> (\<exists>ws. set ws \<subseteq> set whitespace \<and> err = concat ws)"
        by (rule absent(2))
    qed
  qed
  have ex: "trim [] = []" "trim [CHR 0x20, CHR 0x09, CHR 0x0A] = []"
    "trim (''ok'' @ [CHR 0x0A]) = ''ok''" "trim '' a b '' = ''a b''"
    by code_simp+
  show ?thesis
  proof (intro conjI)
    show "trim text = [] \<longleftrightarrow> (\<exists>ws. set ws \<subseteq> set whitespace \<and> text = concat ws)"
      by (rule trim_empty_iff)
  qed (rule fields ex)+
qed

lemma sample_loop:
  "fst (main_loop sample_disk ''/work'' (actions sample_report) []) = Inr sample_results"
  by code_simp

lemma blank_loop:
  "fst (main_loop blank_disk ''/work'' (actions sample_report) []) = Inr sample_results"
  by code_simp

lemma blank_reads:
  "fst (readStatus blank_disk ''/work'' (parseTarget ''libs/ui:test''))
     = Inr (''ok'' @ [CHR 0x0A], [CHR 0x20, CHR 0x0A])"
  "fst (readStatus blank_disk ''/work'' (parseTarget ''proj''))
     = Inr ([CHR 0xE3, CHR 0x80, CHR 0x80, CHR 0x09], [])"
  by code_simp+

text \<open>
  In the sample workspace with the two whitespace-only logs, the first task has an
  output log ending in a line feed, kept whole, and an error log of a space and a line
  feed, absent from the result; the second task has an output log of a wide space and
  a tab, absent from the result, and no error log.
\<close>

theorem output_fields_presence_witness:
  "fst (main_loop blank_disk ''/work'' (actions sample_report) []) = Inr sample_results
   \<and> map params_target (map node (run_tasks (actions sample_report))) = [''libs/ui:test'', ''proj'']
   \<and> fst (readStatus blank_disk ''/work'' (parseTarget ''libs/ui:test''))
       = Inr (''ok'' @ [CHR 0x0A], [CHR 0x20, CHR 0x0A])
   \<and> fst (readStatus blank_disk ''/work'' (parseTarget ''proj''))
       = Inr ([CHR 0xE3, CHR 0x80, CHR 0x80, CHR 0x09], [])
   \<and> list_all2
       (\<lambda>a r. \<exists>out err.
          fst (readStatus blank_disk ''/work'' (parseTarget (params_target (node a))))
            = Inr (out, err)
          \<and> stdout r = (if trim out \<noteq> [] then Some out else None)
          \<and> stderr r = (if trim err \<noteq> [] then Some err else None)
          \<and> hasStdout r = (trim out \<noteq> [])
          \<and> hasStderr r = (trim err \<noteq> [])
          \<and> (stdout r = None \<longleftrightarrow> (\<exists>ws. set ws \<subseteq> set whitespace \<and> out = concat ws))
          \<and> (stderr r = None \<longleftrightarrow> (\<exists>ws. set ws \<subseteq> set whitespace \<and> err = concat ws)))
       (run_tasks (actions sample_report)) sample_results
   \<and> map stdout sample_results = [Some (''ok'' @ [CHR 0x0A]), None]
   \<and> map stderr sample_results = [None, None]
   \<and> trim [CHR 0x20, CHR 0x0A] = []
   \<and> trim [CHR 0xE3, CHR 0x80, CHR 0x80, CHR 0x09] = []"
proof -
  have runs: "map params_target (map node (run_tasks (actions sample_report)))
      = [''libs/ui:test'', ''proj'']"
    by (simp add: run_tasks_def sample_report_def)
  have fields: "map stdout sample_results = [Some (''ok'' @ [CHR 0x0A]), None]"
     "map stderr sample_results = [None, None]"
    by (simp_all add: sample_results_def)
  have blank: "set [[CHR 0x20], [CHR 0x0A]] \<subseteq> set whitespace
      \<and> [CHR 0x20, CHR 0x0A] = concat [[CHR 0x20], [CHR 0x0A]]"
    "set [[CHR 0xE3, CHR 0x80, CHR 0x80], [CHR 0x09]] \<subseteq> set whitespace
      \<and> [CHR 0xE3, CHR 0x80, CHR 0x80, CHR 0x09] = concat [[CHR 0xE3, CHR 0x80, CHR 0x80], [CHR 0x09]]"
    by (simp_all add: whitespace_def)
  note whitespace_only =
    output_fields_presence [OF blank_loop, THEN conjunct2, THEN conjunct1, THEN iffD2]
  have t1: "trim [CHR 0x20, CHR 0x0A] = []"
    by (rule whitespace_only) (rule exI [of _ "[[CHR 0x20], [CHR 0x0A]]"], rule blank(1))
  have t2: "trim [CHR 0xE3, CHR 0x80, CHR 0x80, CHR 0x09] = []"
    by (rule whitespace_only)
       (rule exI [of _ "[[CHR 0xE3, CHR 0x80, CHR 0x80], [CHR 0x09]]"], rule blank(2))
  show ?thesis
  proof (intro conjI)
    show "list_all2
       (\<lambda>a r. \<exists>out err.
          fst (readStatus blank_disk ''/work'' (parseTarget (params_target (node a))))
            = Inr (out, err)
          \<and> stdout r = (if trim out \<noteq> [] then Some out else None)
          \<and> stderr r = (if trim err \<noteq> [] then Some err else None)
          \<and> hasStdout r = (trim out \<noteq> [])
          \<and> hasStderr r = (trim err \<noteq> [])
          \<and> (stdout r = None \<longleftrightarrow> (\<exists>ws. set ws \<subseteq> set whitespace \<and> out = concat ws))
          \<and> (stderr r = None \<longleftrightarrow> (\<exists>ws. set ws \<subseteq> set whitespace \<and> err = concat ws)))
       (run_tasks (actions sample_report)) sample_results"
      by (rule output_fields_presence [OF blank_loop, THEN conjunct1])
  qed (rule blank_loop runs blank_reads fields t1 t2)+
qed

lemma parseTarget_no_colon:
  "CHR '':'' \<notin> set t \<Longrightarrow> parseTarget t = \<lparr>task = ''unknown'', project = t\<rparr>"
  by (subst parseTarget_def, subst js_split_eq) (auto simp: at_or_def)

lemma parseTarget_colon:
  "CHR '':'' \<in> set t \<Longrightarrow>
     parseTarget t =
       \<lparr>task = takeWhile (\<lambda>c. c \<noteq> CHR '':'') (tl (dropWhile (\<lambda>c. c \<noteq> CHR '':'') t)),
        project = takeWhile (\<lambda>c. c \<noteq> CHR '':'') t\<rparr>"
  by (subst parseTarget_def, subst js_split_eq, subst js_split_eq) (simp add: at_or_def)

text \<open>
  Claim C10: the target kept in a task result is the project and the task of the
  parsed target joined again by a colon, not the target text of the action; the
  console title, the table row and the detail heading all show this kept target. So
  a target without a colon gains the suffix \<open>:unknown\<close> (\<open>proj\<close> becomes \<open>proj:unknown\<close>), and
  of a target with colons only the first two segments are kept (\<open>a:b:c\<close> becomes \<open>a:b\<close>).
\<close>

theorem target_reserialized:
  assumes "fst (main_loop disk root as []) = Inr rs"
  shows "list_all2
           (\<lambda>a r. target r = project (parseTarget (params_target (node a))) @ '':''
                                @ task (parseTarget (params_target (node a))))
           (run_tasks as) rs
       \<and> group_titles (snd (main_loop disk root as []))
           = map (\<lambda>r. interpolate (statusBadges_at (status r)) @ '' '' @ bold (target r)) rs
       \<and> map (\<lambda>r. data (hd (tableRow r))) rs = map target rs
       \<and> map (\<lambda>r. hd (detail_section r)) rs = map (\<lambda>r. AddHeading (''Task: '' @ target r) 3) rs
       \<and> (CHR '':'' \<notin> set t \<longrightarrow>
            project (parseTarget t) @ '':'' @ task (parseTarget t) = t @ '':unknown'')
       \<and> (CHR '':'' \<in> set t \<longrightarrow>
            project (parseTarget t) @ '':'' @ task (parseTarget t)
              = takeWhile (\<lambda>c. c \<noteq> CHR '':'') t @ '':''
                  @ takeWhile (\<lambda>c. c \<noteq> CHR '':'') (tl (dropWhile (\<lambda>c. c \<noteq> CHR '':'') t)))
       \<and> project (parseTarget ''proj'') @ '':'' @ task (parseTarget ''proj'') = ''proj:unknown''
       \<and> project (parseTarget ''a:b:c'') @ '':'' @ task (parseTarget ''a:b:c'') = ''a:b''"
proof -
  from assms have "main_loop disk root as [] = (Inr rs, snd (main_loop disk root as []))"
    by (cases "main_loop disk root as []") simp
  from main_loop_inv [OF this] have
    all: "list_all2
           (\<lambda>a r. \<exists>out err.
              fst (readStatus disk root (parseTarget (params_target (node a)))) = Inr (out, err)
              \<and> r = \<lparr>target = project (parseTarget (params_target (node a))) @ '':''
                               @ task (parseTarget (params_target (node a))),
                      status = action_status a,
                      command = commandOf a,
                      hasStdout = (trim out \<noteq> []),
                      hasStderr = (trim err \<noteq> []),
                      stdout = (if trim out \<noteq> [] then Some out else None),
                      stderr = (if trim err \<noteq> [] then Some err else None)\<rparr>)
           (run_tasks as) rs"
    and titles: "group_titles (snd (main_loop disk root as []))
           = map (\<lambda>r. interpolate (statusBadges_at (status r)) @ '' '' @ bold (target r)) rs"
    by simp_all
  from all have targets: "list_all2
           (\<lambda>a r. target r = project (parseTarget (params_target (node a))) @ '':''
                                @ task (parseTarget (params_target (node a))))
           (run_tasks as) rs"
    by (rule list_all2_mono) auto
  have rows: "map (\<lambda>r. data (hd (tableRow r))) rs = map target rs"
    by (simp add: tableRow_def Let_def)
  have details: "map (\<lambda>r. hd (detail_section r)) rs
      = map (\<lambda>r. AddHeading (''Task: '' @ target r) 3) rs"
    by (simp add: detail_section_def)
  have suffix: "CHR '':'' \<notin> set t \<longrightarrow>
            project (parseTarget t) @ '':'' @ task (parseTarget t) = t @ '':unknown''"
    by (simp add: parseTarget_no_colon)
  have kept: "CHR '':'' \<in> set t \<longrightarrow>
            project (parseTarget t) @ '':'' @ task (parseTarget t)
              = takeWhile (\<lambda>c. c \<noteq> CHR '':'') t @ '':''
                  @ takeWhile (\<lambda>c. c \<noteq> CHR '':'') (tl (dropWhile (\<lambda>c. c \<noteq> CHR '':'') t))"
    by (simp add: parseTarget_colon)
  have e1: "project (parseTarget ''proj'') @ '':'' @ task (parseTarget ''proj'') = ''proj:unknown''"
    by (simp add: parseTarget_def at_or_def)
  have e2: "project (parseTarget ''a:b:c'') @ '':'' @ task (parseTarget ''a:b:c'') = ''a:b''"
    by (simp add: parseTarget_def at_or_def)
  from targets titles rows details suffix kept e1 e2 show ?thesis by blast
qed

theorem target_reserialized_witness:
  "fst (main_loop sample_disk ''/work'' (actions sample_report) []) = Inr sample_results
   \<and> map params_target (map node (run_tasks (actions sample_report))) = [''libs/ui:test'', ''proj'']
   \<and> list_all2
        (\<lambda>a r. target r = project (parseTarget (params_target (node a))) @ '':''
                             @ task (parseTarget (params_target (node a))))
        (run_tasks (actions sample_report)) sample_results
   \<and> map target sample_results = [''libs/ui:test'', ''proj:unknown'']
   \<and> CHR '':'' \<notin> set ''proj''
   \<and> project (parseTarget ''proj'') @ '':'' @ task (parseTarget ''proj'') = ''proj'' @ '':unknown''
   \<and> CHR '':'' \<in> set ''a:b:c''
   \<and> project (parseTarget ''a:b:c'') @ '':'' @ task (parseTarget ''a:b:c'') = ''a:b''"
proof -
  have a: "map params_target (map node (run_tasks (actions sample_report)))
      = [''libs/ui:test'', ''proj'']"
    by (simp add: run_tasks_def sample_report_def)
  have b: "map target sample_results = [''libs/ui:test'', ''proj:unknown'']"
    by (simp add: sample_results_def)
  have c: "CHR '':'' \<notin> set ''proj''" "CHR '':'' \<in> set ''a:b:c''" by simp_all
  from target_reserialized [OF sample_loop, of "''proj''"]
    target_reserialized [OF sample_loop, of "''a:b:c''"] sample_loop a b c
  show ?thesis by blast
qed

section \<open>Publishing the summary\<close>

lemma main_unfold:
  "snd (main env write disk decode cwd) =
     (case fst (loadReport disk decode cwd) of
        Inl e \<Rightarrow> snd (loadReport disk decode cwd)
      | Inr None \<Rightarrow>
          snd (loadReport disk decode cwd)
            @ [Warning ''Run report does not exist, has `moon ci` or `moon run` ran?'']
      | Inr (Some report) \<Rightarrow>
          (case fst (main_loop disk cwd (actions report) []) of
             Inl e \<Rightarrow>
               snd (loadReport disk decode cwd)
                 @ snd (main_loop disk cwd (actions report) [])
           | Inr rs \<Rightarrow>
               (snd (loadReport disk decode cwd)
                        @ snd (main_loop disk cwd (actions report) [])
                        @ (if env ''GITHUB_ACTIONS'' = Some ''true'' \<and> rs \<noteq> []
                           then [SummaryWrite
                                   ([AddHeading ''Moon CI Retrospect Results'' 1,
                                     AddRaw (''This report shows the results of Moon CI task executions.''
                                             @ [CHR 0x0A])]
                                    @ [AddTable (tableHeader # map tableRow rs), AddBreak]
                                    @ concat (map detail_section rs))]
                           else []))))"
  by (simp add: main_def Let_def split: prod.splits sum.splits option.splits)

lemma main_outcome:
  "fst (main env write disk decode cwd) =
     (case fst (loadReport disk decode cwd) of
        Inl e \<Rightarrow> Some e
      | Inr None \<Rightarrow> None
      | Inr (Some report) \<Rightarrow>
          (case fst (main_loop disk cwd (actions report) []) of
             Inl e \<Rightarrow> Some e
           | Inr rs \<Rightarrow>
               (if env ''GITHUB_ACTIONS'' = Some ''true'' \<and> rs \<noteq> []
                then write ([AddHeading ''Moon CI Retrospect Results'' 1,
                             AddRaw (''This report shows the results of Moon CI task executions.''
                                     @ [CHR 0x0A])]
                            @ [AddTable (tableHeader # map tableRow rs), AddBreak]
                            @ concat (map detail_section rs))
                else None)))"
  by (simp add: main_def Let_def split: prod.splits sum.splits option.splits)

lemma loadReport_quiet:
  "group_titles (snd (loadReport disk decode root)) = []"
  "published (snd (loadReport disk decode root)) = []"
  by (simp_all add: loadReport_unfold Let_def)

lemma main_loop_never_publishes: "published (snd (main_loop disk root as acc)) = []"
proof (induction as arbitrary: acc)
  case Nil
  show ?case by simp
next
  case (Cons a rest)
  show ?case
  proof (cases "action (node a) = ''run-task''")
    case False
    with Cons show ?thesis by (simp add: main_loop_Cons_skip)
  next
    case True
    obtain res evs where rd: "readStatus disk root (parseTarget (params_target (node a))) = (res, evs)"
      by (cases "readStatus disk root (parseTarget (params_target (node a)))")
    have quiet: "published evs = []"
      using readStatus_quiet(2) [of disk root "parseTarget (params_target (node a))"] rd by simp
    show ?thesis
    proof (cases res)
      case (Inl e)
      with True rd quiet show ?thesis by (simp add: main_loop_Cons_fail)
    next
      case (Inr texts)
      obtain out err where "texts = (out, err)" by (cases texts)
      with rd Inr have "readStatus disk root (parseTarget (params_target (node a)))
          = (Inr (out, err), evs)" by simp
      from main_loop_Cons_run [OF True this] quiet Cons.IH show ?thesis
        by (simp add: published_append console_group_quiet)
    qed
  qed
qed

lemma main_published:
  "published (snd (main env write disk decode cwd)) =
     (case fst (loadReport disk decode cwd) of
        Inl e \<Rightarrow> []
      | Inr None \<Rightarrow> []
      | Inr (Some report) \<Rightarrow>
          (case fst (main_loop disk cwd (actions report) []) of
             Inl e \<Rightarrow> []
           | Inr rs \<Rightarrow>
               (if env ''GITHUB_ACTIONS'' = Some ''true'' \<and> rs \<noteq> []
                then [[AddHeading ''Moon CI Retrospect Results'' 1,
                       AddRaw (''This report shows the results of Moon CI task executions.''
                               @ [CHR 0x0A])]
                      @ [AddTable (tableHeader # map tableRow rs), AddBreak]
                      @ concat (map detail_section rs)]
                else [])))"
  by (simp add: main_unfold published_append loadReport_quiet main_loop_never_publishes
      split: sum.splits option.splits)


text \<open>
  Claim C4: the write operation of the summary is called at most once in a run, and it
  is called exactly when the variable \<^verbatim>\<open>GITHUB_ACTIONS\<close> is \<open>true\<close>, a report was loaded and the
  loop over its actions ended with at least one task result. For a report with no
  task execution \<^verbatim>\<open>main\<close> returns without calling it, also when the variable is set, and
  opens no console group.
\<close>

theorem summary_publication:
  "(published (snd (main env write disk decode cwd)) \<noteq> [] \<longleftrightarrow>
      env ''GITHUB_ACTIONS'' = Some ''true''
      \<and> (\<exists>report rs. fst (loadReport disk decode cwd) = Inr (Some report)
            \<and> fst (main_loop disk cwd (actions report) []) = Inr rs \<and> rs \<noteq> []))
   \<and> length (published (snd (main env write disk decode cwd))) \<le> 1
   \<and> (fst (loadReport disk decode cwd) = Inr (Some report) \<longrightarrow>
      run_tasks (actions report) = [] \<longrightarrow>
        fst (main env write disk decode cwd) = None
        \<and> published (snd (main env write disk decode cwd)) = []
        \<and> group_titles (snd (main env write disk decode cwd)) = [])"
proof (intro conjI impI)
  show "published (snd (main env write disk decode cwd)) \<noteq> [] \<longleftrightarrow>
      env ''GITHUB_ACTIONS'' = Some ''true''
      \<and> (\<exists>report rs. fst (loadReport disk decode cwd) = Inr (Some report)
            \<and> fst (main_loop disk cwd (actions report) []) = Inr rs \<and> rs \<noteq> [])"
    by (auto simp: main_published split: sum.splits option.splits)
next
  show "length (published (snd (main env write disk decode cwd))) \<le> 1"
    by (simp add: main_published split: sum.splits option.splits)
next
  assume load: "fst (loadReport disk decode cwd) = Inr (Some report)"
    and none: "run_tasks (actions report) = []"
  from none have loop: "main_loop disk cwd (actions report) [] = (Inr [], [])"
    by (rule main_loop_no_tasks)
  from load loop show "fst (main env write disk decode cwd) = None"
    by (simp add: main_outcome)
  from load loop show "published (snd (main env write disk decode cwd)) = []"
    by (simp add: main_published)
  from load loop show "group_titles (snd (main env write disk decode cwd)) = []"
    by (simp add: main_unfold loadReport_quiet)
qed

lemma sample_load:
  "fst (loadReport sample_disk sample_decode ''/work'') = Inr (Some sample_report)"
  "fst (loadReport run_only_disk sample_decode ''/work'') = Inr (Some empty_report)"
  by code_simp+

theorem summary_publication_witness:
  "github_env ''GITHUB_ACTIONS'' = Some ''true''
   \<and> fst (loadReport sample_disk sample_decode ''/work'') = Inr (Some sample_report)
   \<and> fst (main_loop sample_disk ''/work'' (actions sample_report) []) = Inr sample_results
   \<and> sample_results \<noteq> []
   \<and> length (published (snd (main github_env accepting_write sample_disk sample_decode ''/work''))) = 1
   \<and> published (snd (main Map.empty accepting_write sample_disk sample_decode ''/work'')) = []
   \<and> fst (loadReport run_only_disk sample_decode ''/work'') = Inr (Some empty_report)
   \<and> run_tasks (actions empty_report) = []
   \<and> published (snd (main github_env accepting_write run_only_disk sample_decode ''/work'')) = []
   \<and> group_titles (snd (main github_env accepting_write run_only_disk sample_decode ''/work'')) = []"
proof -
  have env: "github_env ''GITHUB_ACTIONS'' = Some ''true''"
    by (simp add: github_env_def)
  have ne: "sample_results \<noteq> []"
    by (simp add: sample_results_def)
  have none: "run_tasks (actions empty_report) = []"
    by (simp add: run_tasks_def empty_report_def)
  note on = summary_publication [of github_env accepting_write sample_disk sample_decode "''/work''" sample_report]
  note off = summary_publication [of Map.empty accepting_write sample_disk sample_decode "''/work''" sample_report]
  note zero = summary_publication [of github_env accepting_write run_only_disk sample_decode "''/work''" empty_report]
  from on env sample_load(1) sample_loop ne
  have "published (snd (main github_env accepting_write sample_disk sample_decode ''/work'')) \<noteq> []"
    by blast
  with on have one: "length (published (snd (main github_env accepting_write sample_disk sample_decode ''/work''))) = 1"
    by (cases "published (snd (main github_env accepting_write sample_disk sample_decode ''/work''))") auto
  from off have unset: "published (snd (main Map.empty accepting_write sample_disk sample_decode ''/work'')) = []"
    by simp
  from zero sample_load(2) none
  have "published (snd (main github_env accepting_write run_only_disk sample_decode ''/work'')) = []"
    and "group_titles (snd (main github_env accepting_write run_only_disk sample_decode ''/work'')) = []"
    by blast+
  with env sample_load sample_loop ne one unset none show ?thesis by blast
qed

section \<open>Order of the task results\<close>

lemma list_all2_map_eq:
  "list_all2 (\<lambda>a r. f r = g a) xs ys \<Longrightarrow> map f ys = map g xs"
  by (induction rule: list_all2_induct) auto

lemma table_rows_append: "table_rows (xs @ ys) = table_rows xs @ table_rows ys"
  by (induction xs rule: table_rows.induct) simp_all

lemma headings_append: "headings n (xs @ ys) = headings n xs @ headings n ys"
  by (induction n xs rule: headings.induct) simp_all

lemma detail_section_read:
  "table_rows (detail_section r) = []"
  "headings 3 (detail_section r) = [''Task: '' @ target r]"
  by (simp_all add: detail_section_def table_rows_append headings_append)

lemma detail_sections_read:
  "table_rows (concat (map detail_section rs)) = []"
  "headings 3 (concat (map detail_section rs)) = map (\<lambda>r. ''Task: '' @ target r) rs"
  by (induction rs) (simp_all add: table_rows_append headings_append detail_section_read)

lemma tableRow_cells:
  "map data (tableRow r) =
     [target r,
      getStatusEmoji (status r) @ '' '' @ status r,
      or_dash (command r),
      (if hasStdout r \<and> hasStderr r
         then outbox_tray @ '' stdout'' @ '', '' @ inbox_tray @ '' stderr''
       else if hasStdout r then outbox_tray @ '' stdout''
       else if hasStderr r then inbox_tray @ '' stderr''
       else ''-'')]"
  "map header (tableRow r) = [False, False, False, False]"
  by (simp_all add: tableRow_def Let_def or_dash_def outbox_tray_def inbox_tray_def)

text \<open>
  Claim C5: order is kept. Take a loaded report with N task executions, whose logs
  are each missing or readable; the statuses may be any text. Then the loop ends with
  exactly N task results, the i-th built from the i-th task execution of the report
  (its status, its command, its re-joined target). The console groups are opened in
  that order, one per task result, each titled with the badge of its status and its
  target in bold. When the summary is published, its table has the header row and
  then one row per task result in that same order, the cells of a row showing the
  target, the glyph and the status, the command or a dash, and the outputs captured
  or a dash; its detail sections follow in that same order, each headed by the target.
\<close>

theorem order_preserved:
  assumes load: "fst (loadReport disk decode cwd) = Inr (Some report)"
    and readable: "\<forall>a \<in> set (actions report). action (node a) = ''run-task'' \<longrightarrow>
             disk (stdoutPath cwd (parseTarget (params_target (node a)))) \<noteq> Unreadable
             \<and> disk (stderrPath cwd (parseTarget (params_target (node a)))) \<noteq> Unreadable"
  shows "\<exists>rs. fst (main_loop disk cwd (actions report) []) = Inr rs
      \<and> length rs = length (run_tasks (actions report))
      \<and> map status rs = map action_status (run_tasks (actions report))
      \<and> map target rs
          = map (\<lambda>a. project (parseTarget (params_target (node a))) @ '':''
                       @ task (parseTarget (params_target (node a))))
              (run_tasks (actions report))
      \<and> map command rs = map commandOf (run_tasks (actions report))
      \<and> group_titles (snd (main env write disk decode cwd))
          = map (\<lambda>r. interpolate (statusBadges_at (status r)) @ '' '' @ bold (target r)) rs
      \<and> (env ''GITHUB_ACTIONS'' = Some ''true'' \<longrightarrow> rs \<noteq> [] \<longrightarrow>
           (\<exists>doc intro.
              published (snd (main env write disk decode cwd)) = [doc]
              \<and> doc = intro @ AddTable (tableHeader # map tableRow rs) # AddBreak
                         # concat (map detail_section rs)
              \<and> table_rows doc = tableHeader # map tableRow rs
              \<and> map data (hd (table_rows doc)) = [''Task'', ''Status'', ''Command'', ''Outputs'']
              \<and> map (map data) (tl (table_rows doc))
                  = map (\<lambda>r. [target r,
                              getStatusEmoji (status r) @ '' '' @ status r,
                              or_dash (command r),
                              (if hasStdout r \<and> hasStderr r
                                 then outbox_tray @ '' stdout'' @ '', '' @ inbox_tray @ '' stderr''
                               else if hasStdout r then outbox_tray @ '' stdout''
                               else if hasStderr r then inbox_tray @ '' stderr''
                               else ''-'')]) rs
              \<and> headings 3 doc = map (\<lambda>r. ''Task: '' @ target r) rs))"
proof -
  from main_loop_total [OF readable, of "[]"] obtain rs where
    rs: "fst (main_loop disk cwd (actions report) []) = Inr rs" by blast
  then have loop: "main_loop disk cwd (actions report) []
      = (Inr rs, snd (main_loop disk cwd (actions report) []))"
    by (cases "main_loop disk cwd (actions report) []") simp
  from main_loop_inv [OF loop] have
    all: "list_all2
           (\<lambda>a r. \<exists>out err.
              fst (readStatus disk cwd (parseTarget (params_target (node a)))) = Inr (out, err)
              \<and> r = \<lparr>target = project (parseTarget (params_target (node a))) @ '':''
                               @ task (parseTarget (params_target (node a))),
                      status = action_status a,
                      command = commandOf a,
                      hasStdout = (trim out \<noteq> []),
                      hasStderr = (trim err \<noteq> []),
                      stdout = (if trim out \<noteq> [] then Some out else None),
                      stderr = (if trim err \<noteq> [] then Some err else None)\<rparr>)
           (run_tasks (actions report)) rs"
    and titles: "group_titles (snd (main_loop disk cwd (actions report) []))
           = map (\<lambda>r. interpolate (statusBadges_at (status r)) @ '' '' @ bold (target r)) rs"
    by simp_all
  from all have len: "length rs = length (run_tasks (actions report))"
    by (simp add: list_all2_lengthD)
  from all have "list_all2 (\<lambda>a r. status r = action_status a) (run_tasks (actions report)) rs"
    by (rule list_all2_mono) auto
  then have statuses: "map status rs = map action_status (run_tasks (actions report))"
    by (rule list_all2_map_eq)
  from all have "list_all2
      (\<lambda>a r. target r = project (parseTarget (params_target (node a))) @ '':''
                           @ task (parseTarget (params_target (node a))))
      (run_tasks (actions report)) rs"
    by (rule list_all2_mono) auto
  then have targets: "map target rs
          = map (\<lambda>a. project (parseTarget (params_target (node a))) @ '':''
                       @ task (parseTarget (params_target (node a))))
              (run_tasks (actions report))"
    by (rule list_all2_map_eq)
  from all have "list_all2 (\<lambda>a r. command r = commandOf a) (run_tasks (actions report)) rs"
    by (rule list_all2_mono) auto
  then have commands: "map command rs = map commandOf (run_tasks (actions report))"
    by (rule list_all2_map_eq)
  have console: "group_titles (snd (main env write disk decode cwd))
          = map (\<lambda>r. interpolate (statusBadges_at (status r)) @ '' '' @ bold (target r)) rs"
    using load rs titles by (simp add: main_unfold group_titles_append loadReport_quiet)
  have summary: "env ''GITHUB_ACTIONS'' = Some ''true'' \<longrightarrow> rs \<noteq> [] \<longrightarrow>
           (\<exists>doc intro.
              published (snd (main env write disk decode cwd)) = [doc]
              \<and> doc = intro @ AddTable (tableHeader # map tableRow rs) # AddBreak
                         # concat (map detail_section rs)
              \<and> table_rows doc = tableHeader # map tableRow rs
              \<and> map data (hd (table_rows doc)) = [''Task'', ''Status'', ''Command'', ''Outputs'']
              \<and> map (map data) (tl (table_rows doc))
                  = map (\<lambda>r. [target r,
                              getStatusEmoji (status r) @ '' '' @ status r,
                              or_dash (command r),
                              (if hasStdout r \<and> hasStderr r
                                 then outbox_tray @ '' stdout'' @ '', '' @ inbox_tray @ '' stderr''
                               else if hasStdout r then outbox_tray @ '' stdout''
                               else if hasStderr r then inbox_tray @ '' stderr''
                               else ''-'')]) rs
              \<and> headings 3 doc = map (\<lambda>r. ''Task: '' @ target r) rs)"
  proof (intro impI)
    assume flag: "env ''GITHUB_ACTIONS'' = Some ''true''" and ne: "rs \<noteq> []"
    let ?intro = "[AddHeading ''Moon CI Retrospect Results'' 1,
                   AddRaw (''This report shows the results of Moon CI task executions.''
                           @ [CHR 0x0A])]"
    let ?doc = "?intro @ AddTable (tableHeader # map tableRow rs) # AddBreak
                  # concat (map detail_section rs)"
    from load rs flag ne have pub: "published (snd (main env write disk decode cwd)) = [?doc]"
      by (simp add: main_published)
    have rows: "table_rows ?doc = tableHeader # map tableRow rs"
      by (simp add: detail_sections_read)
    have captions: "map data (hd (table_rows ?doc)) = [''Task'', ''Status'', ''Command'', ''Outputs'']"
      by (simp only: rows list.sel) (simp add: tableHeader_def)
    have cells: "map (map data) (tl (table_rows ?doc))
                  = map (\<lambda>r. [target r,
                              getStatusEmoji (status r) @ '' '' @ status r,
                              or_dash (command r),
                              (if hasStdout r \<and> hasStderr r
                                 then outbox_tray @ '' stdout'' @ '', '' @ inbox_tray @ '' stderr''
                               else if hasStdout r then outbox_tray @ '' stdout''
                               else if hasStderr r then inbox_tray @ '' stderr''
                               else ''-'')]) rs"
      by (simp only: rows list.sel map_map o_def tableRow_cells)
    have heads: "headings 3 ?doc = map (\<lambda>r. ''Task: '' @ target r) rs"
      by (simp add: detail_sections_read)
    show "\<exists>doc intro.
              published (snd (main env write disk decode cwd)) = [doc]
              \<and> doc = intro @ AddTable (tableHeader # map tableRow rs) # AddBreak
                         # concat (map detail_section rs)
              \<and> table_rows doc = tableHeader # map tableRow rs
              \<and> map data (hd (table_rows doc)) = [''Task'', ''Status'', ''Command'', ''Outputs'']
              \<and> map (map data) (tl (table_rows doc))
                  = map (\<lambda>r. [target r,
                              getStatusEmoji (status r) @ '' '' @ status r,
                              or_dash (command r),
                              (if hasStdout r \<and> hasStderr r
                                 then outbox_tray @ '' stdout'' @ '', '' @ inbox_tray @ '' stderr''
                               else if hasStdout r then outbox_tray @ '' stdout''
                               else if hasStderr r then inbox_tray @ '' stderr''
                               else ''-'')]) rs
              \<and> headings 3 doc = map (\<lambda>r. ''Task: '' @ target r) rs"
      by (rule exI [of _ ?doc], rule exI [of _ ?intro], intro conjI)
         (rule pub refl rows captions cells heads)+
  qed
  show ?thesis
    by (rule exI [of _ rs], intro conjI)
       (rule rs len statuses targets commands console summary)+
qed

theorem order_preserved_witness:
  "fst (main_loop sample_disk ''/work'' (actions sample_report) []) = Inr sample_results
   \<and> length sample_results = 2
   \<and> map action_status (run_tasks (actions sample_report)) = [''passed'', ''paused'']
   \<and> map status sample_results = [''passed'', ''paused'']
   \<and> map target sample_results = [''libs/ui:test'', ''proj:unknown'']
   \<and> group_titles (snd (main github_env accepting_write sample_disk sample_decode ''/work''))
       = [bgGreen '' PASS '' @ '' '' @ bold ''libs/ui:test'',
          ''undefined '' @ bold ''proj:unknown'']
   \<and> (\<exists>doc. published (snd (main github_env accepting_write sample_disk sample_decode ''/work''))
               = [doc]
          \<and> map (map data) (table_rows doc)
              = [[''Task'', ''Status'', ''Command'', ''Outputs''],
                 [''libs/ui:test'', check_mark @ '' passed'', ''npm test'', outbox_tray @ '' stdout''],
                 [''proj:unknown'', question_mark @ '' paused'', ''-'', ''-'']]
          \<and> headings 3 doc = [''Task: libs/ui:test'', ''Task: proj:unknown''])"
proof -
  have readable: "\<forall>a \<in> set (actions sample_report). action (node a) = ''run-task'' \<longrightarrow>
      sample_disk (stdoutPath ''/work'' (parseTarget (params_target (node a)))) \<noteq> Unreadable
      \<and> sample_disk (stderrPath ''/work'' (parseTarget (params_target (node a)))) \<noteq> Unreadable"
    by code_simp
  have env: "github_env ''GITHUB_ACTIONS'' = Some ''true''"
    by (simp add: github_env_def)
  have ne: "sample_results \<noteq> []"
    by (simp add: sample_results_def)
  have runs: "map action_status (run_tasks (actions sample_report)) = [''passed'', ''paused'']"
    by (simp add: run_tasks_def sample_report_def)
  have results: "length sample_results = 2"
    "map status sample_results = [''passed'', ''paused'']"
    "map target sample_results = [''libs/ui:test'', ''proj:unknown'']"
    by (simp_all add: sample_results_def)
  have shown: "map (\<lambda>r. interpolate (statusBadges_at (status r)) @ '' '' @ bold (target r))
        sample_results
      = [bgGreen '' PASS '' @ '' '' @ bold ''libs/ui:test'',
         ''undefined '' @ bold ''proj:unknown'']"
    "map (\<lambda>r. [target r,
                getStatusEmoji (status r) @ '' '' @ status r,
                or_dash (command r),
                (if hasStdout r \<and> hasStderr r
                   then outbox_tray @ '' stdout'' @ '', '' @ inbox_tray @ '' stderr''
                 else if hasStdout r then outbox_tray @ '' stdout''
                 else if hasStderr r then inbox_tray @ '' stderr''
                 else ''-'')]) sample_results
      = [[''libs/ui:test'', check_mark @ '' passed'', ''npm test'', outbox_tray @ '' stdout''],
         [''proj:unknown'', question_mark @ '' paused'', ''-'', ''-'']]"
    "map (\<lambda>r. ''Task: '' @ target r) sample_results
      = [''Task: libs/ui:test'', ''Task: proj:unknown'']"
    by (simp_all add: sample_results_def statusBadges_at_def statusBadges_def
        object_prototype_def interpolate_def getStatusEmoji_def or_dash_def)
  from order_preserved [OF sample_load(1) readable, of github_env accepting_write]
  obtain rs where
    r1: "fst (main_loop sample_disk ''/work'' (actions sample_report) []) = Inr rs"
    and r6: "group_titles (snd (main github_env accepting_write sample_disk sample_decode ''/work''))
          = map (\<lambda>r. interpolate (statusBadges_at (status r)) @ '' '' @ bold (target r)) rs"
    and r7: "github_env ''GITHUB_ACTIONS'' = Some ''true'' \<longrightarrow> rs \<noteq> [] \<longrightarrow>
           (\<exists>doc intro.
              published (snd (main github_env accepting_write sample_disk sample_decode ''/work'')) = [doc]
              \<and> doc = intro @ AddTable (tableHeader # map tableRow rs) # AddBreak
                         # concat (map detail_section rs)
              \<and> table_rows doc = tableHeader # map tableRow rs
              \<and> map data (hd (table_rows doc)) = [''Task'', ''Status'', ''Command'', ''Outputs'']
              \<and> map (map data) (tl (table_rows doc))
                  = map (\<lambda>r. [target r,
                              getStatusEmoji (status r) @ '' '' @ status r,
                              or_dash (command r),
                              (if hasStdout r \<and> hasStderr r
                                 then outbox_tray @ '' stdout'' @ '', '' @ inbox_tray @ '' stderr''
                               else if hasStdout r then outbox_tray @ '' stdout''
                               else if hasStderr r then inbox_tray @ '' stderr''
                               else ''-'')]) rs
              \<and> headings 3 doc = map (\<lambda>r. ''Task: '' @ target r) rs)"
    by (elim exE conjE) (rule that)
  from r1 sample_loop have same: "rs = sample_results" by simp
  from r7 [unfolded same, rule_format, OF env ne] obtain doc where
    d1: "published (snd (main github_env accepting_write sample_disk sample_decode ''/work'')) = [doc]"
    and d3: "table_rows doc = tableHeader # map tableRow sample_results"
    and d4: "map data (hd (table_rows doc)) = [''Task'', ''Status'', ''Command'', ''Outputs'']"
    and d5: "map (map data) (tl (table_rows doc))
                  = map (\<lambda>r. [target r,
                              getStatusEmoji (status r) @ '' '' @ status r,
                              or_dash (command r),
                              (if hasStdout r \<and> hasStderr r
                                 then outbox_tray @ '' stdout'' @ '', '' @ inbox_tray @ '' stderr''
                               else if hasStdout r then outbox_tray @ '' stdout''
                               else if hasStderr r then inbox_tray @ '' stderr''
                               else ''-'')]) sample_results"
    and d6: "headings 3 doc = map (\<lambda>r. ''Task: '' @ target r) sample_results"
    by (elim exE conjE) (rule that)
  from d3 have "table_rows doc = hd (table_rows doc) # tl (table_rows doc)" by simp
  then have "map (map data) (table_rows doc)
      = map data (hd (table_rows doc)) # map (map data) (tl (table_rows doc))"
    by (metis list.simps(9))
  with d4 d5 shown(2) have rows: "map (map data) (table_rows doc)
              = [[''Task'', ''Status'', ''Command'', ''Outputs''],
                 [''libs/ui:test'', check_mark @ '' passed'', ''npm test'', outbox_tray @ '' stdout''],
                 [''proj:unknown'', question_mark @ '' paused'', ''-'', ''-'']]"
    by (simp only:)
  from d6 shown(3) have heads: "headings 3 doc = [''Task: libs/ui:test'', ''Task: proj:unknown'']"
    by (simp only:)
  from r6 same shown(1)
  have console: "group_titles (snd (main github_env accepting_write sample_disk sample_decode ''/work''))
       = [bgGreen '' PASS '' @ '' '' @ bold ''libs/ui:test'',
          ''undefined '' @ bold ''proj:unknown'']"
    by (simp only:)
  have summary: "\<exists>doc. published (snd (main github_env accepting_write sample_disk sample_decode ''/work''))
               = [doc]
          \<and> map (map data) (table_rows doc)
              = [[''Task'', ''Status'', ''Command'', ''Outputs''],
                 [''libs/ui:test'', check_mark @ '' passed'', ''npm test'', outbox_tray @ '' stdout''],
                 [''proj:unknown'', question_mark @ '' paused'', ''-'', ''-'']]
          \<and> headings 3 doc = [''Task: libs/ui:test'', ''Task: proj:unknown'']"
    by (rule exI [of _ doc], intro conjI) (rule d1 rows heads)+
  show ?thesis
    by (intro conjI) (rule sample_loop results runs console summary)+
qed

end
